theory Spec2Isabelle
  imports Main
begin

section \<open>Planck noise model: asset fetcher and spectral model builder\<close>

text \<open>
  A shallow embedding of \<^verbatim>\<open>cmbml/utils/get_maps.py\<close> (the asset fetcher) and of
  \<^verbatim>\<open>archive/make_planck_sims_cov_model.py\<close> (the spectral model builder).
  Python integers are \<open>int\<close>, strings are \<open>string\<close>, file contents are byte lists,
  an exception is a value \<open>Inl e\<close> of a sum type, and the file system, the remote
  service and the console are fields of an explicit world that every operation takes
  and returns.
\<close>

subsection \<open>Paths, errors, console messages\<close>

text \<open>
  \<^verbatim>\<open>Path(assets_directory) / fn\<close>: the directory as it was given and the file name.
  No template of the source puts a separator into a file name, so \<^verbatim>\<open>dest_path.name\<close>
  is the second component.
\<close>

type_synonym path = "string \<times> string"

type_synonym bytes = "nat list"

datatype error =
    OverflowError
  | RequestException string
  | OpenForWriteError path
  | WriteError path
  | FileNotFoundError path
  | FitsOpenError path
  | ReadMapError path
  | IndexError
  | UnknownUnit string path
  | BroadcastError
  | AnafastError
  | PCAError
  | NameError

datatype message =
    Does_not_exist path
  | Placeholder_file path
  | File_exists path
  | Downloaded string

subsection \<open>Number formatting\<close>

definition digit_char :: "nat \<Rightarrow> char" where
  "digit_char n = ''0123456789'' ! n"

fun str_nat :: "nat \<Rightarrow> string" where
  "str_nat n = (if n < 10 then [digit_char n] else str_nat (n div 10) @ [digit_char (n mod 10)])"

declare str_nat.simps [simp del]

text \<open>\<^verbatim>\<open>str(i)\<close> and the \<^verbatim>\<open>{i}\<close> of a format string, for an integer.\<close>

definition str_int :: "int \<Rightarrow> string" where
  "str_int i = (if i < 0 then CHR ''-'' # str_nat (nat (- i)) else str_nat (nat i))"

fun bit_length :: "nat \<Rightarrow> nat" where
  "bit_length n = (if n = 0 then 0 else Suc (bit_length (n div 2)))"

declare bit_length.simps [simp del]

text \<open>
  The format code \<^verbatim>\<open>f\<close> converts an integer with \<^verbatim>\<open>float()\<close>: exact below \<open>2^53\<close>,
  rounded to 53 significant bits (ties to even) above, and \<^verbatim>\<open>OverflowError\<close> when the
  rounded value is no finite double. The result is the double's value, an integer.
\<close>

definition float_of_int :: "int \<Rightarrow> error + int" where
  "float_of_int i =
     (let a = nat \<bar>i\<bar>; n = bit_length a in
      if n \<le> 53 then Inr i
      else
        let e = n - 53; q = a div 2 ^ e; r = a mod 2 ^ e;
            q' = (if 2 ^ e < 2 * r \<or> (2 * r = 2 ^ e \<and> odd q) then q + 1 else q);
            v = q' * 2 ^ e
        in if 2 ^ 1024 \<le> v then Inl OverflowError else Inr (sgn i * int v))"

text \<open>\<^verbatim>\<open>"{:.0f}".format(x)\<close>: every digit of the double's value, no decimal point.\<close>

definition format_0f :: "int \<Rightarrow> error + string" where
  "format_0f x =
     (case float_of_int x of
        Inl e \<Rightarrow> Inl e
      | Inr v \<Rightarrow> Inr (str_int v))"

text \<open>\<^verbatim>\<open>str.zfill(width)\<close>: zeros go after a leading sign.\<close>

definition zfill :: "nat \<Rightarrow> string \<Rightarrow> string" where
  "zfill width s =
     (if width \<le> length s then s
      else
        (case s of
           [] \<Rightarrow> replicate width (CHR ''0'')
         | c # rest \<Rightarrow>
             if c = CHR ''+'' \<or> c = CHR ''-''
             then c # replicate (width - length s) (CHR ''0'') @ rest
             else replicate (width - length s) (CHR ''0'') @ s))"

definition format_freq :: "int \<Rightarrow> error + string" where
  "format_freq freq =
     (case format_0f freq of Inl e \<Rightarrow> Inl e | Inr s \<Rightarrow> Inr (zfill 3 s))"

definition format_real :: "int \<Rightarrow> error + string" where
  "format_real real' =
     (case format_0f real' of Inl e \<Rightarrow> Inl e | Inr s \<Rightarrow> Inr (zfill 5 s))"

subsection \<open>The world of the asset fetcher\<close>

text \<open>
  \<open>files\<close> is the file system (a path to the file's bytes), \<open>remote\<close> what a
  \<^verbatim>\<open>requests.get\<close> of a URL answers (\<open>None\<close>: the call raises), \<open>can_write\<close> whether
  \<^verbatim>\<open>open(path, "wb")\<close> succeeds, \<open>write_fault\<close> whether \<^verbatim>\<open>file.write\<close> then raises
  (\<open>Some k\<close>: it raises with \<open>k\<close> bytes on the disk, the file having been truncated by
  the open), \<open>requests\<close> the network calls made so far and \<open>stdout\<close> the lines printed
  so far. \<open>archives\<close> holds what \<^verbatim>\<open>np.savez\<close> wrote, by file name.
\<close>

record 'a world =
  files :: "path \<Rightarrow> bytes option"
  remote :: "string \<Rightarrow> bytes option"
  can_write :: "path \<Rightarrow> bool"
  write_fault :: "path \<Rightarrow> nat option"
  requests :: "string list"
  stdout :: "message list"
  archives :: "string \<Rightarrow> 'a option"

definition url_template_maps :: "string \<Rightarrow> string" where
  "url_template_maps fn = ''http://pla.esac.esa.int/pla/aio/product-action?MAP.MAP_ID='' @ fn"

definition url_template_sims :: "string \<Rightarrow> string" where
  "url_template_sims fn =
     ''http://pla.esac.esa.int/pla/aio/product-action?SIMULATED_MAP.FILE_ID='' @ fn"

definition acquire_map_data ::
  "path \<Rightarrow> (string \<Rightarrow> string) \<Rightarrow> 'a world \<Rightarrow> (error + unit) \<times> 'a world" where
  "acquire_map_data dest_path source_url_template w =
     (let (need_to_dl, w1) =
            (case files w dest_path of
               None \<Rightarrow> (True, w\<lparr>stdout := stdout w @ [Does_not_exist dest_path]\<rparr>)
             | Some content \<Rightarrow>
                 if length content < 1024
                 then (True, w\<lparr>stdout := stdout w @ [Placeholder_file dest_path]\<rparr>)
                 else (False, w\<lparr>stdout := stdout w @ [File_exists dest_path]\<rparr>));
          fn = snd dest_path
      in if need_to_dl then
           (let url = source_url_template fn;
                w2 = w1\<lparr>requests := requests w1 @ [url]\<rparr>
            in case remote w2 url of
                 None \<Rightarrow> (Inl (RequestException url), w2)
               | Some content \<Rightarrow>
                   if \<not> can_write w2 dest_path
                   then (Inl (OpenForWriteError dest_path), w2)
                   else
                     (case write_fault w2 dest_path of
                        Some k \<Rightarrow>
                          (Inl (WriteError dest_path),
                           w2\<lparr>files := (files w2)(dest_path \<mapsto> take k content)\<rparr>)
                      | None \<Rightarrow>
                          (Inr (), w2\<lparr>files := (files w2)(dest_path \<mapsto> content),
                                     stdout := stdout w2 @ [Downloaded fn]\<rparr>)))
         else (Inr (), w1))"

definition planck_obs_fn :: "string \<Rightarrow> string \<Rightarrow> int \<Rightarrow> string \<Rightarrow> string" where
  "planck_obs_fn instrument frequency obs_nside rev' =
     instrument @ ''_SkyMap_'' @ frequency @ ''_'' @ str_int obs_nside @ ''_'' @ rev' @ ''_full.fits''"

definition get_planck_obs_data ::
  "int \<Rightarrow> string \<Rightarrow> 'a world \<Rightarrow> (error + path) \<times> 'a world" where
  "get_planck_obs_data detector assets_directory w =
     (case format_freq detector of
        Inl e \<Rightarrow> (Inl e, w)
      | Inr f \<Rightarrow>
          let (instrument, use_freq_str0, rev', obs_nside) =
                (if detector \<in> set [30, 44, 70]
                 then (''LFI'', f @ ''-BPassCorrected'', ''R3.00'', 1024)
                 else (''HFI'', f, ''R3.01'', 2048));
              use_freq_str = (if detector = 353 then f @ ''-psb'' else use_freq_str0);
              obs_map_fn = planck_obs_fn instrument use_freq_str obs_nside rev';
              dest_path = (assets_directory, obs_map_fn)
          in (case acquire_map_data dest_path url_template_maps w of
                (Inl e, w') \<Rightarrow> (Inl e, w')
              | (Inr _, w') \<Rightarrow> (Inr dest_path, w')))"

definition planck_noise_fn_template :: "string \<Rightarrow> string \<Rightarrow> string \<Rightarrow> string" where
  "planck_noise_fn_template frequency ring_cut realization =
     ''ffp10_noise_'' @ frequency @ ''_'' @ ring_cut @ ''_map_mc_'' @ realization @ ''.fits''"

definition get_planck_noise_data ::
  "int \<Rightarrow> string \<Rightarrow> int \<Rightarrow> 'a world \<Rightarrow> (error + path) \<times> 'a world" where
  "get_planck_noise_data detector assets_directory realization w =
     (let ring_cut = ''full'' in
      case format_freq detector of
        Inl e \<Rightarrow> (Inl e, w)
      | Inr frequency \<Rightarrow>
          (case format_real realization of
             Inl e \<Rightarrow> (Inl e, w)
           | Inr r \<Rightarrow>
               let fn = (assets_directory, planck_noise_fn_template frequency ring_cut r)
               in (case acquire_map_data fn url_template_sims w of
                     (Inl e, w') \<Rightarrow> (Inl e, w')
                   | (Inr _, w') \<Rightarrow> (Inr fn, w'))))"

definition hm_map_fn_template :: "string \<Rightarrow> string \<Rightarrow> int \<Rightarrow> string" where
  "hm_map_fn_template instrument freq hm =
     instrument @ ''_SkyMap_'' @ freq @ ''_2048_R3.01_halfmission-'' @ str_int hm @ ''.fits''"

definition get_planck_hm_data ::
  "int \<Rightarrow> string \<Rightarrow> 'a world \<Rightarrow> (error + path \<times> path) \<times> 'a world" where
  "get_planck_hm_data detector assets_directory w =
     (let instrument = (if detector \<in> set [30, 44, 70] then ''LFI'' else ''HFI'') in
      case format_freq detector of
        Inl e \<Rightarrow> (Inl e, w)
      | Inr freq \<Rightarrow>
          let hm_1_fn = (assets_directory, hm_map_fn_template instrument freq 1);
              hm_2_fn = (assets_directory, hm_map_fn_template instrument freq 2)
          in (case acquire_map_data hm_1_fn url_template_maps w of
                (Inl e, w1) \<Rightarrow> (Inl e, w1)
              | (Inr _, w1) \<Rightarrow>
                  (case acquire_map_data hm_2_fn url_template_maps w1 of
                     (Inl e, w2) \<Rightarrow> (Inl e, w2)
                   | (Inr _, w2) \<Rightarrow> (Inr (hm_1_fn, hm_2_fn), w2))))"

subsection \<open>The spectral model builder\<close>

text \<open>
  The libraries the builder calls are taken as they are: \<open>fits_open\<close> is what
  \<^verbatim>\<open>astropy.io.fits.open\<close> makes of a file's bytes (the headers of its HDUs, keyword and
  value; \<open>None\<close>: it raises), \<open>read_map\<close> is \<^verbatim>\<open>healpy.read_map\<close>, \<open>anafast\<close> is
  \<^verbatim>\<open>healpy.anafast\<close>, \<open>pca_fit\<close> is \<^verbatim>\<open>PCA().fit\<close> with its mean, components and explained
  variance, and \<open>fsub\<close>, \<open>np_mean\<close>, \<open>np_std\<close>, \<open>np_log10\<close> are numpy's arithmetic on
  the floating-point type \<open>'f\<close>.
\<close>

type_synonym header = "(string \<times> string) list"

record 'f libs =
  fits_open :: "bytes \<Rightarrow> header list option"
  read_map :: "bytes \<Rightarrow> 'f list option"
  fsub :: "'f \<Rightarrow> 'f \<Rightarrow> 'f"
  np_mean :: "'f list \<Rightarrow> 'f"
  np_std :: "'f list \<Rightarrow> 'f"
  anafast :: "'f list \<Rightarrow> int \<Rightarrow> 'f list option"
  np_log10 :: "'f list list \<Rightarrow> 'f list list"
  pca_fit :: "'f list list \<Rightarrow> ('f list \<times> 'f list list \<times> 'f list) option"

record 'f noise_model =
  mean_ps :: "'f list"
  components :: "'f list list"
  variance :: "'f list"
  maps_mean :: "'f"
  maps_sd :: "'f"
  maps_unit :: string

definition DATA_ROOT :: string where
  "DATA_ROOT = ''/shared/data/Assets/''"

definition PLANCK_NOISE_DIR :: string where
  "PLANCK_NOISE_DIR = DATA_ROOT @ ''/PlanckNoise/''"

definition N_PLANCK_SIMS :: nat where
  "N_PLANCK_SIMS = 100"

definition get_lmax_for_nside :: "int \<Rightarrow> int" where
  "get_lmax_for_nside nside = 3 * nside - 1"

text \<open>\<^verbatim>\<open>hdul[hdu]\<close>: a negative index counts from the end, an index out of range raises.\<close>

definition py_index :: "'b list \<Rightarrow> int \<Rightarrow> error + 'b" where
  "py_index xs i =
     (let j = (if i < 0 then i + int (length xs) else i)
      in if j < 0 \<or> int (length xs) \<le> j then Inl IndexError else Inr (xs ! nat j))"

text \<open>
  \<^verbatim>\<open>get_field_unit\<close>: opening the file and indexing the HDU list can raise; only the
  \<^verbatim>\<open>KeyError\<close> of the header lookup is caught, and gives the empty string.
\<close>

definition get_field_unit ::
  "'f libs \<Rightarrow> path \<Rightarrow> int \<Rightarrow> int \<Rightarrow> 'a world \<Rightarrow> error + string" where
  "get_field_unit lib fits_fn hdu field_idx w =
     (case files w fits_fn of
        None \<Rightarrow> Inl (FileNotFoundError fits_fn)
      | Some content \<Rightarrow>
          (case fits_open lib content of
             None \<Rightarrow> Inl (FitsOpenError fits_fn)
           | Some hdul \<Rightarrow>
               let field_num = field_idx + 1 in
               (case py_index hdul hdu of
                  Inl e \<Rightarrow> Inl e
                | Inr hdr \<Rightarrow>
                    (case map_of hdr (''TUNIT'' @ str_int field_num) of
                       None \<Rightarrow> Inr []
                     | Some unit \<Rightarrow> Inr unit))))"

definition hp_read_map :: "'f libs \<Rightarrow> path \<Rightarrow> 'a world \<Rightarrow> error + 'f list" where
  "hp_read_map lib fn w =
     (case files w fn of
        None \<Rightarrow> Inl (FileNotFoundError fn)
      | Some content \<Rightarrow>
          (case read_map lib content of
             None \<Rightarrow> Inl (ReadMapError fn)
           | Some m \<Rightarrow> Inr m))"

text \<open>
  \<^verbatim>\<open>t_src_map -= avg\<close> on one-dimensional arrays: pixel by pixel when the shapes agree,
  a one-element \<open>avg\<close> is broadcast, every other pair of shapes raises.
\<close>

definition np_isub :: "'f libs \<Rightarrow> 'f list \<Rightarrow> 'f list \<Rightarrow> error + 'f list" where
  "np_isub lib t_src_map avg =
     (if length avg = length t_src_map then Inr (map2 (fsub lib) t_src_map avg)
      else if length avg = 1 then Inr (map (\<lambda>x. fsub lib x (hd avg)) t_src_map)
      else Inl BroadcastError)"

text \<open>The two settings \<^verbatim>\<open>get_ps_data\<close> derives from the detector.\<close>

definition subtract_average :: "int \<Rightarrow> bool" where
  "subtract_average detector = (detector \<in> set [353, 545, 857])"

definition nside :: "int \<Rightarrow> int" where
  "nside detector = (if detector \<in> set [30, 44, 70] then 1024 else 2048)"

definition avg_noise_map_fn :: "int \<Rightarrow> path" where
  "avg_noise_map_fn detector =
     (''noise_avgs'', ''avg_noise_map_'' @ str_int detector @ ''_TQU_100.fits'')"

definition noise_model_fn :: "int \<Rightarrow> string" where
  "noise_model_fn detector = ''noise_model_'' @ str_int detector @ ''GHz_diff.npz''"

text \<open>
  The body of the loop over the realizations, for realization \<open>i\<close>: the unit read, the
  mean of the map and its power spectrum. \<open>avg\<close> is \<open>None\<close> while the variable is unbound.
\<close>

definition get_ps_data_body ::
  "'f libs \<Rightarrow> int \<Rightarrow> 'f list option \<Rightarrow> int \<Rightarrow> int \<Rightarrow> 'a world
     \<Rightarrow> (error + string \<times> 'f \<times> 'f list) \<times> 'a world" where
  "get_ps_data_body lib detector avg lmax i w =
     (case get_planck_noise_data detector PLANCK_NOISE_DIR i w of
        (Inl e, w1) \<Rightarrow> (Inl e, w1)
      | (Inr src_map_fn, w1) \<Rightarrow>
          (case get_field_unit lib src_map_fn 1 0 w1 of
             Inl e \<Rightarrow> (Inl e, w1)
           | Inr src_map_unit \<Rightarrow>
               if src_map_unit \<notin> set [''K_CMB'', ''MJy/sr'']
               then (Inl (UnknownUnit src_map_unit src_map_fn), w1)
               else
                 (case hp_read_map lib src_map_fn w1 of
                    Inl e \<Rightarrow> (Inl e, w1)
                  | Inr t_src_map0 \<Rightarrow>
                      (case (if subtract_average detector
                             then (case avg of
                                     None \<Rightarrow> Inl NameError
                                   | Some a \<Rightarrow> np_isub lib t_src_map0 a)
                             else Inr t_src_map0) of
                         Inl e \<Rightarrow> (Inl e, w1)
                       | Inr t_src_map \<Rightarrow>
                           (case anafast lib t_src_map lmax of
                              None \<Rightarrow> (Inl AnafastError, w1)
                            | Some cl \<Rightarrow>
                                (Inr (src_map_unit, np_mean lib t_src_map, cl), w1))))))"

text \<open>
  The loop: \<open>src_cls\<close> and \<open>maps_means\<close> grow by one entry per realization, and
  \<open>src_map_unit\<close> is assigned anew in each (\<open>None\<close>: not assigned yet).
\<close>

fun get_ps_data_loop ::
  "'f libs \<Rightarrow> int \<Rightarrow> 'f list option \<Rightarrow> int \<Rightarrow> int list
     \<Rightarrow> 'f list list \<times> 'f list \<times> string option \<Rightarrow> 'a world
     \<Rightarrow> (error + 'f list list \<times> 'f list \<times> string option) \<times> 'a world" where
  "get_ps_data_loop lib detector avg lmax [] acc w = (Inr acc, w)"
| "get_ps_data_loop lib detector avg lmax (i # rest) (src_cls, maps_means, src_map_unit) w =
     (case get_ps_data_body lib detector avg lmax i w of
        (Inl e, w1) \<Rightarrow> (Inl e, w1)
      | (Inr (u, m, cl), w1) \<Rightarrow>
          get_ps_data_loop lib detector avg lmax rest
            (src_cls @ [cl], maps_means @ [m], Some u) w1)"

text \<open>
  \<^verbatim>\<open>get_ps_data\<close> in its three phases: the baseline average is read first (only for
  an average-subtraction detector), then the loop runs, then the model is fitted and
  saved. The first error ends the run with the world as it is then.
\<close>

definition load_avg :: "'f libs \<Rightarrow> int \<Rightarrow> 'a world \<Rightarrow> error + 'f list option" where
  "load_avg lib detector w =
     (if subtract_average detector
      then (case hp_read_map lib (avg_noise_map_fn detector) w of
              Inl e \<Rightarrow> Inl e
            | Inr a \<Rightarrow> Inr (Some a))
      else Inr None)"

definition fit_and_save ::
  "'f libs \<Rightarrow> int \<Rightarrow> 'f list list \<times> 'f list \<times> string option \<Rightarrow> 'f noise_model world
     \<Rightarrow> (error + unit) \<times> 'f noise_model world" where
  "fit_and_save lib detector acc w =
     (case acc of (src_cls, maps_means, src_map_unit) \<Rightarrow>
        let log_src_cls = np_log10 lib src_cls in
        (case pca_fit lib log_src_cls of
           None \<Rightarrow> (Inl PCAError, w)
         | Some (mean_ps', components', variance') \<Rightarrow>
             let maps_mean' = np_mean lib maps_means;
                 maps_sd' = np_std lib maps_means
             in (case src_map_unit of
                   None \<Rightarrow> (Inl NameError, w)
                 | Some u \<Rightarrow>
                     (Inr (),
                      w\<lparr>archives := (archives w)(noise_model_fn detector \<mapsto>
                           \<lparr>mean_ps = mean_ps', components = components',
                            variance = variance', maps_mean = maps_mean',
                            maps_sd = maps_sd', maps_unit = u\<rparr>)\<rparr>))))"

definition get_ps_data ::
  "'f libs \<Rightarrow> int \<Rightarrow> 'f noise_model world \<Rightarrow> (error + unit) \<times> 'f noise_model world" where
  "get_ps_data lib detector w =
     (case load_avg lib detector w of
        Inl e \<Rightarrow> (Inl e, w)
      | Inr avg \<Rightarrow>
          let lmax = get_lmax_for_nside (nside detector) in
          (case get_ps_data_loop lib detector avg lmax (map int [0..<N_PLANCK_SIMS])
                  ([], [], None) w of
             (Inl e, w1) \<Rightarrow> (Inl e, w1)
           | (Inr acc, w1) \<Rightarrow> fit_and_save lib detector acc w1))"

subsection \<open>Vocabulary of the properties\<close>

text \<open>
  Reading a decimal code back, as \<^verbatim>\<open>int(s)\<close> does for a string of digits; the detectors
  the builder's configuration lists; and the test of the acquisition policy: the file is
  there and has at least 1024 bytes.
\<close>

definition digit_val :: "char \<Rightarrow> nat" where
  "digit_val c = of_char c - 48"

definition nat_of_str :: "string \<Rightarrow> nat" where
  "nat_of_str s = foldl (\<lambda>a c. 10 * a + digit_val c) 0 s"

definition supported_detectors :: "int list" where
  "supported_detectors = [30, 44, 70, 100, 143, 217, 353, 545, 857]"

definition cached :: "'a world \<Rightarrow> path \<Rightarrow> bool" where
  "cached w p = (case files w p of None \<Rightarrow> False | Some content \<Rightarrow> 1024 \<le> length content)"

text \<open>
  The acquisition policy, as a test of an outcome: \<open>policy_outcome w p t (r, w')\<close> holds
  when result \<open>r\<close> and world \<open>w'\<close> are what the policy prescribes for target \<open>p\<close> and URL
  template \<open>t\<close> from world \<open>w\<close>. A cached target costs no request and nothing changes; any
  other target costs exactly one request, and the file holds the whole response body when
  the result is normal. What the world answers is the same afterwards.
\<close>

definition policy_outcome ::
  "'a world \<Rightarrow> path \<Rightarrow> (string \<Rightarrow> string) \<Rightarrow> (error + unit) \<times> 'a world \<Rightarrow> bool" where
  "policy_outcome w p t out =
     (case out of (r, w') \<Rightarrow>
        remote w' = remote w \<and> can_write w' = can_write w \<and> write_fault w' = write_fault w
        \<and> archives w' = archives w
        \<and> (if cached w p then r = Inr () \<and> requests w' = requests w \<and> files w' = files w
           else requests w' = requests w @ [t (snd p)]
              \<and> (case remote w (t (snd p)) of
                    None \<Rightarrow> r = Inl (RequestException (t (snd p))) \<and> files w' = files w
                  | Some body \<Rightarrow>
                      if \<not> can_write w p
                      then r = Inl (OpenForWriteError p) \<and> files w' = files w
                      else (case write_fault w p of
                              Some k \<Rightarrow>
                                r = Inl (WriteError p) \<and> files w' = (files w)(p \<mapsto> take k body)
                            | None \<Rightarrow> r = Inr () \<and> files w' = (files w)(p \<mapsto> body)))))"

text \<open>The file names the resolvers are expected to build from the frequency code \<open>f\<close>.\<close>

definition noise_name :: "string \<Rightarrow> string \<Rightarrow> string" where
  "noise_name f s = ''ffp10_noise_'' @ f @ ''_full_map_mc_'' @ s @ ''.fits''"

definition obs_name :: "int \<Rightarrow> string \<Rightarrow> string" where
  "obs_name d f =
     (if d = 30 \<or> d = 44 \<or> d = 70
      then ''LFI_SkyMap_'' @ f @ ''-BPassCorrected_1024_R3.00_full.fits''
      else if d = 353 then ''HFI_SkyMap_'' @ f @ ''-psb_2048_R3.01_full.fits''
      else ''HFI_SkyMap_'' @ f @ ''_2048_R3.01_full.fits'')"

definition hm_name :: "int \<Rightarrow> string \<Rightarrow> string \<Rightarrow> string" where
  "hm_name d f k =
     (if d = 30 \<or> d = 44 \<or> d = 70 then ''LFI'' else ''HFI'')
       @ ''_SkyMap_'' @ f @ ''_2048_R3.01_halfmission-'' @ k @ ''.fits''"

text \<open>
  Worlds to run the operations in, from a file system and a remote: every file can be
  written. Nothing cached and a remote that answers every request with 2048 bytes; every
  path cached with 1024 bytes and no network; nothing cached and no network; every path
  holding a 10-byte placeholder and a remote that answers; a remote that answers with an
  empty body; a disk on which every write fails after 5 bytes; and only the first
  half-mission map of detector 100 cached.
\<close>

definition world_of :: "(path \<Rightarrow> bytes option) \<Rightarrow> (string \<Rightarrow> bytes option) \<Rightarrow> 'a world" where
  "world_of fs net =
     \<lparr>files = fs, remote = net, can_write = (\<lambda>_. True), write_fault = (\<lambda>_. None),
      requests = [], stdout = [], archives = (\<lambda>_. None)\<rparr>"

definition fresh_world :: "'a world" where
  "fresh_world = world_of (\<lambda>_. None) (\<lambda>_. Some (replicate 2048 0))"

definition cached_world :: "'a world" where
  "cached_world = world_of (\<lambda>_. Some (replicate 1024 0)) (\<lambda>_. None)"

definition offline_world :: "'a world" where
  "offline_world = world_of (\<lambda>_. None) (\<lambda>_. None)"

definition placeholder_world :: "'a world" where
  "placeholder_world = world_of (\<lambda>_. Some (replicate 10 1)) (\<lambda>_. Some (replicate 2048 0))"

definition empty_payload_world :: "'a world" where
  "empty_payload_world = world_of (\<lambda>_. None) (\<lambda>_. Some [])"

definition full_disk_world :: "'a world" where
  "full_disk_world = (fresh_world :: 'a world)\<lparr>write_fault := (\<lambda>_. Some 5)\<rparr>"

definition half_cached_world :: "'a world" where
  "half_cached_world =
     world_of (\<lambda>p. if snd p = ''HFI_SkyMap_100_2048_R3.01_halfmission-1.fits''
                   then Some (replicate 1024 0) else None)
              (\<lambda>_. Some (replicate 2048 0))"

text \<open>
  What the body of the loop makes of the file of one realization once it is fetched:
  the unit is read and tested, then the map is read, the average is subtracted where
  the detector asks for it, and the mean and the power spectrum are taken.
\<close>

definition analyse_map ::
  "'f libs \<Rightarrow> int \<Rightarrow> 'f list option \<Rightarrow> int \<Rightarrow> path \<Rightarrow> 'a world \<Rightarrow> error + string \<times> 'f \<times> 'f list" where
  "analyse_map lib detector avg lmax fn w =
     (case get_field_unit lib fn 1 0 w of
        Inl e \<Rightarrow> Inl e
      | Inr u \<Rightarrow>
          if u \<notin> set [''K_CMB'', ''MJy/sr''] then Inl (UnknownUnit u fn)
          else
            (case hp_read_map lib fn w of
               Inl e \<Rightarrow> Inl e
             | Inr m0 \<Rightarrow>
                 (case (if subtract_average detector
                        then (case avg of None \<Rightarrow> Inl NameError | Some a \<Rightarrow> np_isub lib m0 a)
                        else Inr m0) of
                    Inl e \<Rightarrow> Inl e
                  | Inr m \<Rightarrow>
                      (case anafast lib m lmax of
                         None \<Rightarrow> Inl AnafastError
                       | Some cl \<Rightarrow> Inr (u, np_mean lib m, cl)))))"

text \<open>The path of realization \<open>i\<close> of the detector with frequency code \<open>f\<close>.\<close>

definition realization_path :: "string \<Rightarrow> int \<Rightarrow> path" where
  "realization_path f i = (PLANCK_NOISE_DIR, noise_name f (zfill 5 (str_int i)))"

text \<open>
  Libraries to run the builder with, on integers: a file that is empty cannot be opened;
  the first byte of a file says which unit its second header declares (0: \<^verbatim>\<open>K_CMB\<close>,
  1: \<^verbatim>\<open>MJy/sr\<close>, 2: \<^verbatim>\<open>uK\<close>, any other: none); the map is the bytes of the file; the
  power spectrum is the maximum multipole followed by the sum of the map.
\<close>

definition test_lib :: "int libs" where
  "test_lib =
     \<lparr>fits_open = (\<lambda>content.
         case content of
           [] \<Rightarrow> None
         | b # _ \<Rightarrow>
             Some [[(''SIMPLE'', ''T'')],
                   if b = 0 then [(''TUNIT1'', ''K_CMB'')]
                   else if b = 1 then [(''TUNIT1'', ''MJy/sr'')]
                   else if b = 2 then [(''TUNIT1'', ''uK'')]
                   else [(''TTYPE1'', ''I_STOKES'')]]),
      read_map = (\<lambda>content. Some (map int content)),
      fsub = (\<lambda>x y. x - y),
      np_mean = (\<lambda>xs. sum_list xs div int (length xs)),
      np_std = (\<lambda>xs. 0),
      anafast = (\<lambda>m lmax. Some [lmax, sum_list m]),
      np_log10 = (\<lambda>cls. cls),
      pca_fit = (\<lambda>cls. Some (concat (take 1 cls), cls, map sum_list cls))\<rparr>"

text \<open>
  Worlds in which every file is there with 1024 bytes, all equal to a code given by the
  file's name, and there is no network: one in which realization 1 of detector 100
  declares the unit \<^verbatim>\<open>uK\<close>, one in which realization 0 declares no unit, one in which
  realization 99 alone declares \<^verbatim>\<open>MJy/sr\<close>, and one with a baseline average of fives for
  detector 545.
\<close>

definition sim_world :: "(string \<Rightarrow> nat) \<Rightarrow> 'a world" where
  "sim_world code = world_of (\<lambda>p. Some (replicate 1024 (code (snd p)))) (\<lambda>_. None)"

definition bad_unit_world :: "'a world" where
  "bad_unit_world =
     sim_world (\<lambda>n. if n = ''ffp10_noise_100_full_map_mc_00001.fits'' then 2 else 0)"

definition no_unit_world :: "'a world" where
  "no_unit_world =
     sim_world (\<lambda>n. if n = ''ffp10_noise_100_full_map_mc_00000.fits'' then 3 else 0)"

definition mixed_unit_world :: "'a world" where
  "mixed_unit_world =
     sim_world (\<lambda>n. if n = ''ffp10_noise_100_full_map_mc_00099.fits'' then 1 else 0)"


section \<open>Properties\<close>

subsection \<open>Number formatting\<close>

lemma bit_length_le: "n < 2 ^ k \<Longrightarrow> bit_length n \<le> k"
proof (induction k arbitrary: n)
  case 0
  then show ?case by (simp add: bit_length.simps)
next
  case (Suc k)
  have "n div 2 < 2 ^ k" using Suc.prems by simp
  then have "bit_length (n div 2) \<le> k" by (rule Suc.IH)
  then show ?case by (subst bit_length.simps) simp
qed

lemma float_of_int_exact: "\<bar>i\<bar> < 2 ^ 53 \<Longrightarrow> float_of_int i = Inr i"
proof -
  assume a: "\<bar>i\<bar> < 2 ^ 53"
  have "nat \<bar>i\<bar> < 2 ^ 53" using a by (simp add: nat_less_iff)
  then have "bit_length (nat \<bar>i\<bar>) \<le> 53" by (rule bit_length_le)
  then show ?thesis by (simp add: float_of_int_def Let_def)
qed

lemma format_0f_exact: "\<bar>i\<bar> < 2 ^ 53 \<Longrightarrow> format_0f i = Inr (str_int i)"
  by (simp add: format_0f_def float_of_int_exact)

lemma str_nat_not_Nil: "str_nat n \<noteq> []"
  by (subst str_nat.simps) simp

lemma length_str_nat: "0 < k \<Longrightarrow> n < 10 ^ k \<Longrightarrow> length (str_nat n) \<le> k"
proof (induction n arbitrary: k rule: str_nat.induct)
  case (1 n)
  show ?case
  proof (cases "n < 10")
    case True
    with "1.prems" show ?thesis by (subst str_nat.simps) simp
  next
    case False
    obtain j where k: "k = Suc j" using "1.prems"(1) by (cases k) auto
    have "0 < j" using False "1.prems"(2) k by (cases j) auto
    moreover have "n div 10 < 10 ^ j" using "1.prems"(2) k by (simp add: less_mult_imp_div_less)
    ultimately have "length (str_nat (n div 10)) \<le> j" using False "1.IH" by blast
    with False k show ?thesis by (subst str_nat.simps) simp
  qed
qed

lemma length_zfill: "length (zfill k s) = max k (length s)"
  by (auto simp: zfill_def split: list.splits)

lemma zfill_idem: "zfill k (zfill k s) = zfill k s"
proof -
  have "k \<le> length (zfill k s)" by (simp add: length_zfill)
  then show ?thesis by (subst (1) zfill_def) simp
qed

lemma replicate_numeral_eq: "replicate (numeral k) x = x # replicate (pred_numeral k) x"
  by (simp add: numeral_eq_Suc)

lemmas fmt_eval = str_int_def str_nat.simps zfill_def digit_char_def replicate_numeral_eq

lemma lt_10_cases: "n < 10 \<Longrightarrow> n \<in> {0, 1, 2, 3, 4, 5, 6, 7, 8, 9 :: nat}"
  by auto

lemma digit_val_digit_char: "n < 10 \<Longrightarrow> digit_val (digit_char n) = n"
  using lt_10_cases [of n] by (auto simp: digit_val_def digit_char_def)

lemma digit_char_no_sign: "n < 10 \<Longrightarrow> digit_char n \<noteq> CHR ''+'' \<and> digit_char n \<noteq> CHR ''-''"
  using lt_10_cases [of n] by (auto simp: digit_char_def)

lemma nat_of_str_snoc: "nat_of_str (s @ [c]) = 10 * nat_of_str s + digit_val c"
  by (simp add: nat_of_str_def)

lemma nat_of_str_str_nat: "nat_of_str (str_nat n) = n"
proof (induction n rule: str_nat.induct)
  case (1 n)
  show ?case
  proof (cases "n < 10")
    case True
    then show ?thesis
      by (subst str_nat.simps) (simp add: nat_of_str_def digit_val_digit_char)
  next
    case False
    then have "nat_of_str (str_nat (n div 10)) = n div 10" by (rule "1.IH")
    with False show ?thesis
      by (subst str_nat.simps) (simp add: nat_of_str_snoc digit_val_digit_char)
  qed
qed

lemma nat_of_str_zeros: "nat_of_str (replicate k (CHR ''0'') @ s) = nat_of_str s"
proof -
  have "foldl (\<lambda>a c. 10 * a + digit_val c) 0 (replicate k (CHR ''0'')) = 0"
    by (induction k) (simp_all add: digit_val_def)
  then show ?thesis by (simp add: nat_of_str_def)
qed

lemma hd_str_nat: "hd (str_nat n) \<noteq> CHR ''+'' \<and> hd (str_nat n) \<noteq> CHR ''-''"
proof (induction n rule: str_nat.induct)
  case (1 n)
  show ?case
  proof (cases "n < 10")
    case True
    then show ?thesis
      by (subst (1 2) str_nat.simps) (simp add: digit_char_no_sign)
  next
    case False
    then have "hd (str_nat (n div 10)) \<noteq> CHR ''+'' \<and> hd (str_nat (n div 10)) \<noteq> CHR ''-''"
      by (rule "1.IH")
    with False show ?thesis
      by (subst (1 2) str_nat.simps) (simp add: str_nat_not_Nil)
  qed
qed

lemma zfill_str_nat:
  "zfill k (str_nat n) = replicate (k - length (str_nat n)) (CHR ''0'') @ str_nat n"
  using hd_str_nat [of n] str_nat_not_Nil [of n]
  by (cases "str_nat n") (auto simp: zfill_def)

lemma nat_of_str_zfill: "nat_of_str (zfill k (str_nat n)) = n"
  by (simp add: zfill_str_nat nat_of_str_zeros nat_of_str_str_nat)

lemma format_real_nonneg:
  "0 \<le> i \<Longrightarrow> i < 2 ^ 53 \<Longrightarrow> format_real i = Inr (zfill 5 (str_nat (nat i)))"
  by (simp add: format_real_def format_0f_exact str_int_def)

lemma format_freq_nonneg:
  "0 \<le> i \<Longrightarrow> i < 2 ^ 53 \<Longrightarrow> format_freq i = Inr (zfill 3 (str_nat (nat i)))"
  by (simp add: format_freq_def format_0f_exact str_int_def)

lemma format_real_inj:
  assumes "0 \<le> i" "i < 2 ^ 53" "0 \<le> j" "j < 2 ^ 53" "format_real i = format_real j"
  shows "i = j"
proof -
  have "zfill 5 (str_nat (nat i)) = zfill 5 (str_nat (nat j))"
    using assms by (simp add: format_real_nonneg)
  then have "nat_of_str (zfill 5 (str_nat (nat i))) = nat_of_str (zfill 5 (str_nat (nat j)))"
    by simp
  then have "nat i = nat j" by (simp add: nat_of_str_zfill)
  with assms show ?thesis by simp
qed

lemma format_freq_code:
  assumes "0 \<le> d" "d < 1000"
  shows "\<exists>f. format_freq d = Inr f \<and> length f = 3
           \<and> f = replicate (3 - length (str_nat (nat d))) (CHR ''0'') @ str_nat (nat d)
           \<and> format_freq (int (nat_of_str f)) = Inr f \<and> zfill 3 f = f"
proof -
  let ?f = "zfill 3 (str_nat (nat d))"
  have f: "format_freq d = Inr ?f" using assms by (simp add: format_freq_nonneg)
  have "nat d < 10 ^ 3" using assms by simp
  then have "length (str_nat (nat d)) \<le> 3" by (intro length_str_nat) simp_all
  then have len: "length ?f = 3" by (simp add: length_zfill)
  have rd: "int (nat_of_str ?f) = d" using assms by (simp add: nat_of_str_zfill)
  show ?thesis using f len rd by (simp add: zfill_str_nat [symmetric] zfill_idem)
qed

lemma format_real_code:
  assumes "0 \<le> r" "r < 100000"
  shows "\<exists>s. format_real r = Inr s \<and> length s = 5
           \<and> s = replicate (5 - length (str_nat (nat r))) (CHR ''0'') @ str_nat (nat r)
           \<and> format_real (int (nat_of_str s)) = Inr s \<and> zfill 5 s = s"
proof -
  let ?s = "zfill 5 (str_nat (nat r))"
  have s: "format_real r = Inr ?s" using assms by (simp add: format_real_nonneg)
  have "nat r < 10 ^ 5" using assms by simp
  then have "length (str_nat (nat r)) \<le> 5" by (intro length_str_nat) simp_all
  then have len: "length ?s = 5" by (simp add: length_zfill)
  have rd: "int (nat_of_str ?s) = r" using assms by (simp add: nat_of_str_zfill)
  show ?thesis using s len rd by (simp add: zfill_str_nat [symmetric] zfill_idem)
qed

text \<open>
  Claim C8. The frequency code has three digits and the realization index five, padded
  with zeros on the left: 545 gives \<open>545\<close>, 7 gives \<open>00007\<close>, 100 gives \<open>00100\<close>. Formatting
  is idempotent: the number read back from a code formats to the same code, and padding a
  code again leaves it as it is.
\<close>

theorem filename_formatting:
  assumes "0 \<le> d" "d < 1000" "0 \<le> r" "r < 100000"
  shows "format_freq 545 = Inr ''545'' \<and> format_real 7 = Inr ''00007''
       \<and> format_real 100 = Inr ''00100''
       \<and> (\<exists>f. format_freq d = Inr f \<and> length f = 3
              \<and> f = replicate (3 - length (str_nat (nat d))) (CHR ''0'') @ str_nat (nat d)
              \<and> format_freq (int (nat_of_str f)) = Inr f \<and> zfill 3 f = f)
       \<and> (\<exists>s. format_real r = Inr s \<and> length s = 5
              \<and> s = replicate (5 - length (str_nat (nat r))) (CHR ''0'') @ str_nat (nat r)
              \<and> format_real (int (nat_of_str s)) = Inr s \<and> zfill 5 s = s)"
proof -
  have "format_freq 545 = Inr ''545''"
    by (simp add: format_freq_def format_0f_exact fmt_eval)
  moreover have "format_real 7 = Inr ''00007''"
    by (simp add: format_real_def format_0f_exact fmt_eval)
  moreover have "format_real 100 = Inr ''00100''"
    by (simp add: format_real_def format_0f_exact fmt_eval)
  ultimately show ?thesis
    using format_freq_code [OF assms(1,2)] format_real_code [OF assms(3,4)] by blast
qed

theorem filename_formatting_witness:
  "(0::int) \<le> 30 \<and> (30::int) < 1000 \<and> (0::int) \<le> 99 \<and> (99::int) < 100000
   \<and> format_freq 30 = Inr ''030'' \<and> format_real 99 = Inr ''00099''
   \<and> format_freq (int (nat_of_str ''030'')) = Inr ''030''
   \<and> format_real (int (nat_of_str ''00099'')) = Inr ''00099''"
proof -
  have a: "format_freq 30 = Inr ''030''"
    by (simp add: format_freq_def format_0f_exact fmt_eval)
  have b: "format_real 99 = Inr ''00099''"
    by (simp add: format_real_def format_0f_exact fmt_eval)
  show ?thesis using filename_formatting [of 30 99] a b by auto
qed

subsection \<open>Resolution and maximum multipole\<close>

text \<open>
  Claim C5. For a detector in 30, 44, 70 the builder takes resolution 1024 and maximum
  multipole 3071, for every other detector 2048 and 6143; the multipole is three times the
  resolution minus one, and it is the one the loop of \<^verbatim>\<open>get_ps_data\<close> runs with.
\<close>

theorem nside_and_lmax:
  "nside d = (if d = 30 \<or> d = 44 \<or> d = 70 then 1024 else 2048)
   \<and> get_lmax_for_nside (nside d) = (if d = 30 \<or> d = 44 \<or> d = 70 then 3071 else 6143)
   \<and> get_lmax_for_nside n = 3 * n - 1
   \<and> get_ps_data lib d w =
       (case load_avg lib d w of
          Inl e \<Rightarrow> (Inl e, w)
        | Inr avg \<Rightarrow>
            (case get_ps_data_loop lib d avg (if d = 30 \<or> d = 44 \<or> d = 70 then 3071 else 6143)
                    (map int [0..<N_PLANCK_SIMS]) ([], [], None) w of
               (Inl e, w1) \<Rightarrow> (Inl e, w1)
             | (Inr acc, w1) \<Rightarrow> fit_and_save lib d acc w1))"
proof -
  have n: "nside d = (if d = 30 \<or> d = 44 \<or> d = 70 then 1024 else 2048)"
    by (simp add: nside_def)
  have l: "get_lmax_for_nside (nside d) = (if d = 30 \<or> d = 44 \<or> d = 70 then 3071 else 6143)"
    by (simp add: nside_def get_lmax_for_nside_def)
  have f: "get_lmax_for_nside n = 3 * n - 1"
    by (simp add: get_lmax_for_nside_def)
  have g: "get_ps_data lib d w =
       (case load_avg lib d w of
          Inl e \<Rightarrow> (Inl e, w)
        | Inr avg \<Rightarrow>
            (case get_ps_data_loop lib d avg (if d = 30 \<or> d = 44 \<or> d = 70 then 3071 else 6143)
                    (map int [0..<N_PLANCK_SIMS]) ([], [], None) w of
               (Inl e, w1) \<Rightarrow> (Inl e, w1)
             | (Inr acc, w1) \<Rightarrow> fit_and_save lib d acc w1))"
    by (simp only: get_ps_data_def Let_def l)
  from n l f g show ?thesis by (intro conjI)
qed

lemma bit_length_pow2: "bit_length (2 ^ k) = Suc k"
proof (induction k)
  case 0
  show ?case by (subst bit_length.simps, subst bit_length.simps) simp
next
  case (Suc k)
  then show ?case by (subst bit_length.simps) simp
qed

lemma float_of_int_pow2:
  assumes k: "1024 \<le> k"
  shows "float_of_int (2 ^ k) = Inl OverflowError"
proof -
  have a: "nat \<bar>(2::int) ^ k\<bar> = 2 ^ k" by (simp add: nat_power_eq)
  have n: "\<not> Suc k \<le> 53" using k by simp
  have e: "Suc k - 53 = k - 52" by simp
  have k': "k = 52 + (k - 52)" using k by simp
  have p: "(2::nat) ^ k = 2 ^ 52 * 2 ^ (k - 52)" by (subst k') (simp only: power_add)
  have q: "(2::nat) ^ k div 2 ^ (k - 52) = 2 ^ 52" by (subst p) simp
  have r: "(2::nat) ^ k mod 2 ^ (k - 52) = 0" by (subst p) simp
  have "(2::nat) ^ 1024 \<le> 2 ^ k" using k by (intro power_increasing) simp_all
  then have v: "(2::nat) ^ 1024 \<le> 2 ^ 52 * 2 ^ (k - 52)" by (simp only: p [symmetric])
  show ?thesis
    unfolding float_of_int_def a Let_def bit_length_pow2 e q r
    using n v by (simp only: if_False if_True mult_zero_right simp_thms
        zero_less_power zero_less_numeral not_less_zero less_numeral_extra
        power_not_zero zero_neq_numeral not_sym)
qed

lemma format_freq_overflow: "format_freq (2 ^ 1024) = Inl OverflowError"
  unfolding format_freq_def format_0f_def float_of_int_pow2 [of 1024, OF order_refl]
  by (simp only: sum.case)

lemma format_real_overflow: "format_real (2 ^ 1024) = Inl OverflowError"
  unfolding format_real_def format_0f_def float_of_int_pow2 [of 1024, OF order_refl]
  by (simp only: sum.case)

lemma float_of_int_error: "float_of_int i = Inl e \<Longrightarrow> e = OverflowError \<and> 2 ^ 53 \<le> \<bar>i\<bar>"
  using float_of_int_exact [of i]
  by (cases "\<bar>i\<bar> < 2 ^ 53") (auto simp: float_of_int_def Let_def split: if_splits)

lemma format_freq_error: "format_freq d = Inl e \<Longrightarrow> e = OverflowError \<and> 2 ^ 53 \<le> \<bar>d\<bar>"
  using float_of_int_error [of d e]
  by (auto simp: format_freq_def format_0f_def split: sum.splits)

lemma format_real_error: "format_real d = Inl e \<Longrightarrow> e = OverflowError \<and> 2 ^ 53 \<le> \<bar>d\<bar>"
  using float_of_int_error [of d e]
  by (auto simp: format_real_def format_0f_def split: sum.splits)

subsection \<open>The acquisition policy\<close>

lemmas world_eval = cached_def world_of_def fresh_world_def cached_world_def offline_world_def
  placeholder_world_def empty_payload_world_def full_disk_world_def half_cached_world_def

lemma acquire_policy: "policy_outcome w p t (acquire_map_data p t w)"
  by (simp add: policy_outcome_def acquire_map_data_def cached_def Let_def
           split: option.splits)

lemma noise_data_unfold:
  assumes "format_freq d = Inr f" "format_real i = Inr s"
  shows "get_planck_noise_data d dir i w =
     (case acquire_map_data (dir, noise_name f s) url_template_sims w of
        (Inl e, w') \<Rightarrow> (Inl e, w')
      | (Inr u, w') \<Rightarrow> (Inr (dir, noise_name f s), w'))"
  using assms
  by (auto simp: get_planck_noise_data_def planck_noise_fn_template_def noise_name_def Let_def
           split: prod.splits sum.splits)

lemma str_int_consts: "str_int 1024 = ''1024''" "str_int 2048 = ''2048''"
  "str_int 1 = ''1''" "str_int 2 = ''2''" "str_int 0 = ''0''"
  by (simp_all add: fmt_eval)

lemma obs_data_unfold:
  assumes "format_freq d = Inr f"
  shows "get_planck_obs_data d dir w =
     (case acquire_map_data (dir, obs_name d f) url_template_maps w of
        (Inl e, w') \<Rightarrow> (Inl e, w')
      | (Inr u, w') \<Rightarrow> (Inr (dir, obs_name d f), w'))"
  using assms
  by (auto simp: get_planck_obs_data_def planck_obs_fn_def obs_name_def str_int_consts Let_def
           split: prod.splits sum.splits)

lemma hm_data_unfold:
  assumes "format_freq d = Inr f"
  shows "get_planck_hm_data d dir w =
     (case acquire_map_data (dir, hm_name d f ''1'') url_template_maps w of
        (Inl e, w1) \<Rightarrow> (Inl e, w1)
      | (Inr u, w1) \<Rightarrow>
          (case acquire_map_data (dir, hm_name d f ''2'') url_template_maps w1 of
             (Inl e, w2) \<Rightarrow> (Inl e, w2)
           | (Inr u, w2) \<Rightarrow> (Inr ((dir, hm_name d f ''1''), (dir, hm_name d f ''2'')), w2)))"
  using assms
  by (auto simp: get_planck_hm_data_def hm_map_fn_template_def hm_name_def str_int_consts Let_def
           split: prod.splits sum.splits)

lemma hm_names_differ: "hm_name d f ''1'' \<noteq> hm_name d f ''2''"
  by (simp add: hm_name_def)

lemma cached_after_other:
  assumes "policy_outcome w p t (r, w1)" "q \<noteq> p"
  shows "files w1 q = files w q \<and> cached w1 q = cached w q"
  using assms
  by (auto simp: policy_outcome_def cached_def split: if_splits option.splits)


lemma policy_success:
  assumes "policy_outcome w p t (Inr (), w')"
  shows "requests w' = requests w @ (if cached w p then [] else [t (snd p)])"
    and "files w' p = (if cached w p then files w p else remote w (t (snd p)))"
    and "q \<noteq> p \<Longrightarrow> files w' q = files w q"
    and "remote w' = remote w"
  using assms
  by (auto simp: policy_outcome_def split: if_splits option.splits)

lemma policy_succeeds:
  assumes "policy_outcome w p t (r, w')"
    and "cached w p \<or> (remote w (t (snd p)) \<noteq> None \<and> can_write w p \<and> write_fault w p = None)"
  shows "r = Inr ()"
  using assms
  by (auto simp: policy_outcome_def split: if_splits option.splits)

lemma policy_frame:
  assumes "policy_outcome w p t (r, w')"
  shows "remote w' = remote w \<and> can_write w' = can_write w \<and> write_fault w' = write_fault w"
  using assms by (simp add: policy_outcome_def)

lemma hm_data_success:
  assumes f: "format_freq d = Inr f"
    and h: "get_planck_hm_data d dir w = (Inr pp, w')"
  shows "pp = ((dir, hm_name d f ''1''), (dir, hm_name d f ''2''))
       \<and> requests w' = requests w
            @ (if cached w (dir, hm_name d f ''1'') then [] else [url_template_maps (hm_name d f ''1'')])
            @ (if cached w (dir, hm_name d f ''2'') then [] else [url_template_maps (hm_name d f ''2'')])
       \<and> files w' (dir, hm_name d f ''1'') =
            (if cached w (dir, hm_name d f ''1'') then files w (dir, hm_name d f ''1'')
             else remote w (url_template_maps (hm_name d f ''1'')))
       \<and> files w' (dir, hm_name d f ''2'') =
            (if cached w (dir, hm_name d f ''2'') then files w (dir, hm_name d f ''2'')
             else remote w (url_template_maps (hm_name d f ''2'')))"
proof -
  let ?q1 = "(dir, hm_name d f ''1'')" and ?q2 = "(dir, hm_name d f ''2'')"
  obtain r1 w1 where a1: "acquire_map_data ?q1 url_template_maps w = (r1, w1)"
    by (cases "acquire_map_data ?q1 url_template_maps w")
  obtain r2 w2 where a2: "acquire_map_data ?q2 url_template_maps w1 = (r2, w2)"
    by (cases "acquire_map_data ?q2 url_template_maps w1")
  have ne: "?q2 \<noteq> ?q1" using hm_names_differ [of d f] by simp
  from h have r1: "r1 = Inr ()" and r2: "r2 = Inr ()" and pp: "pp = (?q1, ?q2)" and w': "w' = w2"
    by (auto simp: hm_data_unfold [OF f] a1 a2 split: sum.splits)
  have p1: "policy_outcome w ?q1 url_template_maps (Inr (), w1)"
    using acquire_policy [of w ?q1 url_template_maps] a1 r1 by simp
  have p2: "policy_outcome w1 ?q2 url_template_maps (Inr (), w')"
    using acquire_policy [of w1 ?q2 url_template_maps] a2 r2 w' by simp
  have c: "cached w1 ?q2 = cached w ?q2" and f2: "files w1 ?q2 = files w ?q2"
    using cached_after_other [OF p1 ne] by simp_all
  have req: "requests w' = requests w
            @ (if cached w ?q1 then [] else [url_template_maps (hm_name d f ''1'')])
            @ (if cached w ?q2 then [] else [url_template_maps (hm_name d f ''2'')])"
    using policy_success(1) [OF p1] policy_success(1) [OF p2] c by simp
  have g1: "files w' ?q1 = (if cached w ?q1 then files w ?q1
             else remote w (url_template_maps (hm_name d f ''1'')))"
    using policy_success(3) [OF p2, of ?q1] policy_success(2) [OF p1] ne by simp
  have g2: "files w' ?q2 = (if cached w ?q2 then files w ?q2
             else remote w (url_template_maps (hm_name d f ''2'')))"
    using policy_success(2) [OF p2] policy_success(4) [OF p1] c f2 by simp
  from pp req g1 g2 show ?thesis by (intro conjI)
qed

lemma hm_data_succeeds:
  assumes f: "format_freq d = Inr f"
    and t1: "cached w (dir, hm_name d f ''1'')
           \<or> (remote w (url_template_maps (hm_name d f ''1'')) \<noteq> None
              \<and> can_write w (dir, hm_name d f ''1'') \<and> write_fault w (dir, hm_name d f ''1'') = None)"
    and t2: "cached w (dir, hm_name d f ''2'')
           \<or> (remote w (url_template_maps (hm_name d f ''2'')) \<noteq> None
              \<and> can_write w (dir, hm_name d f ''2'') \<and> write_fault w (dir, hm_name d f ''2'') = None)"
  shows "fst (get_planck_hm_data d dir w) = Inr ((dir, hm_name d f ''1''), (dir, hm_name d f ''2''))"
proof -
  let ?q1 = "(dir, hm_name d f ''1'')" and ?q2 = "(dir, hm_name d f ''2'')"
  obtain r1 w1 where a1: "acquire_map_data ?q1 url_template_maps w = (r1, w1)"
    by (cases "acquire_map_data ?q1 url_template_maps w")
  obtain r2 w2 where a2: "acquire_map_data ?q2 url_template_maps w1 = (r2, w2)"
    by (cases "acquire_map_data ?q2 url_template_maps w1")
  have ne: "?q2 \<noteq> ?q1" using hm_names_differ [of d f] by simp
  have p1: "policy_outcome w ?q1 url_template_maps (r1, w1)"
    using acquire_policy [of w ?q1 url_template_maps] a1 by simp
  have p2: "policy_outcome w1 ?q2 url_template_maps (r2, w2)"
    using acquire_policy [of w1 ?q2 url_template_maps] a2 by simp
  have r1: "r1 = Inr ()" using policy_succeeds [OF p1] t1 by simp
  have "cached w1 ?q2 \<or> (remote w1 (url_template_maps (snd ?q2)) \<noteq> None
          \<and> can_write w1 ?q2 \<and> write_fault w1 ?q2 = None)"
    using t2 cached_after_other [OF p1 ne] policy_frame [OF p1] by simp
  then have r2: "r2 = Inr ()" by (rule policy_succeeds [OF p2])
  show ?thesis by (simp add: hm_data_unfold [OF f] a1 a2 r1 r2)
qed


lemma format_freq_exact: "\<bar>d\<bar> < 2 ^ 53 \<Longrightarrow> format_freq d = Inr (zfill 3 (str_int d))"
  by (simp add: format_freq_def format_0f_exact)

lemma format_real_exact: "\<bar>i\<bar> < 2 ^ 53 \<Longrightarrow> format_real i = Inr (zfill 5 (str_int i))"
  by (simp add: format_real_def format_0f_exact)

lemma resolvers_format_error:
  assumes "format_freq d = Inl e"
  shows "get_planck_noise_data d dir i w = (Inl e, w)" "get_planck_obs_data d dir w = (Inl e, w)"
    "get_planck_hm_data d dir w = (Inl e, w)"
  using assms
  by (simp_all add: get_planck_noise_data_def get_planck_obs_data_def get_planck_hm_data_def Let_def)

lemma noise_data_real_error:
  assumes "format_freq d = Inr f" "format_real i = Inl e"
  shows "get_planck_noise_data d dir i w = (Inl e, w)"
  using assms by (simp add: get_planck_noise_data_def Let_def)

text \<open>
  Claim C1. Every call of \<^verbatim>\<open>acquire_map_data\<close> has the outcome the policy prescribes: a
  target that is there with at least 1024 bytes costs no network call and is left as it
  is; a target that is absent or smaller costs exactly one network call, and when the
  call returns normally the file holds the whole response body (when the request, the
  open or the write fails, the error is the result). Every resolver is this acquisition
  applied to its file name, the path being returned when the acquisition returns
  normally; \<^verbatim>\<open>get_planck_hm_data\<close> acquires its two targets one after the other, the
  second from the world the first has left, in which the remote and the second target
  are as they were. A detector whose frequency cannot be formatted ends every resolver
  before any target exists; below \<open>2^53\<close> in size the formatting cannot fail.
\<close>

theorem acquisition_policy:
  "policy_outcome w p t (acquire_map_data p t w)
   \<and> (format_freq d = Inl e \<longrightarrow>
        get_planck_noise_data d dir i w = (Inl e, w) \<and> get_planck_obs_data d dir w = (Inl e, w)
        \<and> get_planck_hm_data d dir w = (Inl e, w))
   \<and> (format_freq d = Inr f \<longrightarrow>
        (format_real i = Inl e \<longrightarrow> get_planck_noise_data d dir i w = (Inl e, w))
        \<and> (format_real i = Inr s \<longrightarrow>
             get_planck_noise_data d dir i w =
               (case acquire_map_data (dir, noise_name f s) url_template_sims w of
                  (Inl e, w') \<Rightarrow> (Inl e, w')
                | (Inr u, w') \<Rightarrow> (Inr (dir, noise_name f s), w')))
        \<and> get_planck_obs_data d dir w =
             (case acquire_map_data (dir, obs_name d f) url_template_maps w of
                (Inl e, w') \<Rightarrow> (Inl e, w')
              | (Inr u, w') \<Rightarrow> (Inr (dir, obs_name d f), w'))
        \<and> get_planck_hm_data d dir w =
             (case acquire_map_data (dir, hm_name d f ''1'') url_template_maps w of
                (Inl e, w1) \<Rightarrow> (Inl e, w1)
              | (Inr u, w1) \<Rightarrow>
                  (case acquire_map_data (dir, hm_name d f ''2'') url_template_maps w1 of
                     (Inl e, w2) \<Rightarrow> (Inl e, w2)
                   | (Inr u, w2) \<Rightarrow>
                       (Inr ((dir, hm_name d f ''1''), (dir, hm_name d f ''2'')), w2)))
        \<and> hm_name d f ''1'' \<noteq> hm_name d f ''2''
        \<and> (get_planck_hm_data d dir w = (Inr pp, w') \<longrightarrow>
             pp = ((dir, hm_name d f ''1''), (dir, hm_name d f ''2''))
             \<and> requests w' = requests w
                  @ (if cached w (dir, hm_name d f ''1'') then []
                     else [url_template_maps (hm_name d f ''1'')])
                  @ (if cached w (dir, hm_name d f ''2'') then []
                     else [url_template_maps (hm_name d f ''2'')])
             \<and> files w' (dir, hm_name d f ''1'') =
                  (if cached w (dir, hm_name d f ''1'') then files w (dir, hm_name d f ''1'')
                   else remote w (url_template_maps (hm_name d f ''1'')))
             \<and> files w' (dir, hm_name d f ''2'') =
                  (if cached w (dir, hm_name d f ''2'') then files w (dir, hm_name d f ''2'')
                   else remote w (url_template_maps (hm_name d f ''2''))))
        \<and> ((cached w (dir, hm_name d f ''1'')
              \<or> (remote w (url_template_maps (hm_name d f ''1'')) \<noteq> None
                 \<and> can_write w (dir, hm_name d f ''1'')
                 \<and> write_fault w (dir, hm_name d f ''1'') = None))
            \<and> (cached w (dir, hm_name d f ''2'')
              \<or> (remote w (url_template_maps (hm_name d f ''2'')) \<noteq> None
                 \<and> can_write w (dir, hm_name d f ''2'')
                 \<and> write_fault w (dir, hm_name d f ''2'') = None)) \<longrightarrow>
             fst (get_planck_hm_data d dir w)
               = Inr ((dir, hm_name d f ''1''), (dir, hm_name d f ''2''))))
   \<and> (\<bar>d\<bar> < 2 ^ 53 \<longrightarrow> format_freq d = Inr (zfill 3 (str_int d)))
   \<and> (\<bar>i\<bar> < 2 ^ 53 \<longrightarrow> format_real i = Inr (zfill 5 (str_int i)))"
proof (intro conjI impI)
  show "policy_outcome w p t (acquire_map_data p t w)" by (rule acquire_policy)
next
  assume "format_freq d = Inl e"
  then show "get_planck_noise_data d dir i w = (Inl e, w)"
    and "get_planck_obs_data d dir w = (Inl e, w)"
    and "get_planck_hm_data d dir w = (Inl e, w)"
    by (rule resolvers_format_error)+
next
  assume "format_freq d = Inr f" "format_real i = Inl e"
  then show "get_planck_noise_data d dir i w = (Inl e, w)" by (rule noise_data_real_error)
next
  assume "format_freq d = Inr f" "format_real i = Inr s"
  then show "get_planck_noise_data d dir i w =
               (case acquire_map_data (dir, noise_name f s) url_template_sims w of
                  (Inl e, w') \<Rightarrow> (Inl e, w')
                | (Inr u, w') \<Rightarrow> (Inr (dir, noise_name f s), w'))"
    by (rule noise_data_unfold)
next
  assume "format_freq d = Inr f"
  then show "get_planck_obs_data d dir w =
             (case acquire_map_data (dir, obs_name d f) url_template_maps w of
                (Inl e, w') \<Rightarrow> (Inl e, w')
              | (Inr u, w') \<Rightarrow> (Inr (dir, obs_name d f), w'))"
    by (rule obs_data_unfold)
next
  assume "format_freq d = Inr f"
  then show "get_planck_hm_data d dir w =
             (case acquire_map_data (dir, hm_name d f ''1'') url_template_maps w of
                (Inl e, w1) \<Rightarrow> (Inl e, w1)
              | (Inr u, w1) \<Rightarrow>
                  (case acquire_map_data (dir, hm_name d f ''2'') url_template_maps w1 of
                     (Inl e, w2) \<Rightarrow> (Inl e, w2)
                   | (Inr u, w2) \<Rightarrow>
                       (Inr ((dir, hm_name d f ''1''), (dir, hm_name d f ''2'')), w2)))"
    by (rule hm_data_unfold)
next
  show "hm_name d f ''1'' \<noteq> hm_name d f ''2''" by (rule hm_names_differ)
next
  assume f: "format_freq d = Inr f" and h: "get_planck_hm_data d dir w = (Inr pp, w')"
  note r = hm_data_success [OF f h]
  show "pp = ((dir, hm_name d f ''1''), (dir, hm_name d f ''2''))" using r by blast
  show "requests w' = requests w
                  @ (if cached w (dir, hm_name d f ''1'') then []
                     else [url_template_maps (hm_name d f ''1'')])
                  @ (if cached w (dir, hm_name d f ''2'') then []
                     else [url_template_maps (hm_name d f ''2'')])" using r by blast
  show "files w' (dir, hm_name d f ''1'') =
                  (if cached w (dir, hm_name d f ''1'') then files w (dir, hm_name d f ''1'')
                   else remote w (url_template_maps (hm_name d f ''1'')))" using r by blast
  show "files w' (dir, hm_name d f ''2'') =
                  (if cached w (dir, hm_name d f ''2'') then files w (dir, hm_name d f ''2'')
                   else remote w (url_template_maps (hm_name d f ''2'')))" using r by blast
next
  assume f: "format_freq d = Inr f"
    and t: "(cached w (dir, hm_name d f ''1'')
              \<or> (remote w (url_template_maps (hm_name d f ''1'')) \<noteq> None
                 \<and> can_write w (dir, hm_name d f ''1'')
                 \<and> write_fault w (dir, hm_name d f ''1'') = None))
            \<and> (cached w (dir, hm_name d f ''2'')
              \<or> (remote w (url_template_maps (hm_name d f ''2'')) \<noteq> None
                 \<and> can_write w (dir, hm_name d f ''2'')
                 \<and> write_fault w (dir, hm_name d f ''2'') = None))"
  show "fst (get_planck_hm_data d dir w)
               = Inr ((dir, hm_name d f ''1''), (dir, hm_name d f ''2''))"
    by (rule hm_data_succeeds [OF f conjunct1 [OF t] conjunct2 [OF t]])
next
  assume "\<bar>d\<bar> < 2 ^ 53"
  then show "format_freq d = Inr (zfill 3 (str_int d))" by (rule format_freq_exact)
next
  assume "\<bar>i\<bar> < 2 ^ 53"
  then show "format_real i = Inr (zfill 5 (str_int i))" by (rule format_real_exact)
qed


lemma resolve_via_acquire:
  assumes "res = (case acquire_map_data q t w of
                    (Inl e, w') \<Rightarrow> (Inl e, w') | (Inr u, w') \<Rightarrow> (Inr q', w'))"
  shows "fst res = (case fst (acquire_map_data q t w) of Inl e \<Rightarrow> Inl e | Inr u \<Rightarrow> Inr q')"
    and "snd res = snd (acquire_map_data q t w)"
  by (simp_all add: assms case_prod_beta split: sum.splits)

lemma format_consts:
  "format_freq 100 = Inr ''100''" "format_freq 30 = Inr ''030''" "format_freq 353 = Inr ''353''"
  "format_freq 999 = Inr ''999''" "format_freq 545 = Inr ''545''"
  "format_real 0 = Inr ''00000''" "format_real 7 = Inr ''00007''"
  by (simp_all add: format_freq_def format_real_def format_0f_exact fmt_eval)

theorem acquisition_policy_witness:
  "fst (get_planck_noise_data 100 ''c'' 0 (placeholder_world :: unit world))
      = Inr (''c'', ''ffp10_noise_100_full_map_mc_00000.fits'')
   \<and> requests (snd (get_planck_noise_data 100 ''c'' 0 (placeholder_world :: unit world)))
      = [url_template_sims ''ffp10_noise_100_full_map_mc_00000.fits'']
   \<and> files (snd (get_planck_noise_data 100 ''c'' 0 (placeholder_world :: unit world)))
        (''c'', ''ffp10_noise_100_full_map_mc_00000.fits'') = Some (replicate 2048 0)
   \<and> fst (get_planck_noise_data 100 ''c'' 0 (cached_world :: unit world))
      = Inr (''c'', ''ffp10_noise_100_full_map_mc_00000.fits'')
   \<and> requests (snd (get_planck_noise_data 100 ''c'' 0 (cached_world :: unit world))) = []
   \<and> files (snd (get_planck_noise_data 100 ''c'' 0 (cached_world :: unit world)))
      = files (cached_world :: unit world)
   \<and> fst (get_planck_hm_data 100 ''c'' (half_cached_world :: unit world))
      = Inr ((''c'', ''HFI_SkyMap_100_2048_R3.01_halfmission-1.fits''),
             (''c'', ''HFI_SkyMap_100_2048_R3.01_halfmission-2.fits''))
   \<and> requests (snd (get_planck_hm_data 100 ''c'' (half_cached_world :: unit world)))
      = [url_template_maps ''HFI_SkyMap_100_2048_R3.01_halfmission-2.fits'']
   \<and> files (snd (get_planck_hm_data 100 ''c'' (half_cached_world :: unit world)))
        (''c'', ''HFI_SkyMap_100_2048_R3.01_halfmission-1.fits'') = Some (replicate 1024 0)
   \<and> files (snd (get_planck_hm_data 100 ''c'' (half_cached_world :: unit world)))
        (''c'', ''HFI_SkyMap_100_2048_R3.01_halfmission-2.fits'') = Some (replicate 2048 0)
   \<and> fst (get_planck_obs_data 30 ''c'' (offline_world :: unit world))
      = Inl (RequestException
               (url_template_maps ''LFI_SkyMap_030-BPassCorrected_1024_R3.00_full.fits''))
   \<and> requests (snd (get_planck_obs_data 30 ''c'' (offline_world :: unit world)))
      = [url_template_maps ''LFI_SkyMap_030-BPassCorrected_1024_R3.00_full.fits'']
   \<and> fst (acquire_map_data (''c'', ''m.fits'') url_template_sims (full_disk_world :: unit world))
      = Inl (WriteError (''c'', ''m.fits''))
   \<and> files (snd (acquire_map_data (''c'', ''m.fits'') url_template_sims
                   (full_disk_world :: unit world))) (''c'', ''m.fits'') = Some (replicate 5 0)
   \<and> get_planck_hm_data (2 ^ 1024) ''c'' (fresh_world :: unit world)
      = (Inl OverflowError, fresh_world)
   \<and> get_planck_noise_data 100 ''c'' (2 ^ 1024) (fresh_world :: unit world)
      = (Inl OverflowError, fresh_world)
   \<and> format_freq 100 = Inr (zfill 3 (str_int 100))
   \<and> format_real 0 = Inr (zfill 5 (str_int 0))"
proof -
  let ?n = "''ffp10_noise_100_full_map_mc_00000.fits''"
  let ?h1 = "''HFI_SkyMap_100_2048_R3.01_halfmission-1.fits''"
  let ?h2 = "''HFI_SkyMap_100_2048_R3.01_halfmission-2.fits''"
  let ?o = "''LFI_SkyMap_030-BPassCorrected_1024_R3.00_full.fits''"
  have n: "noise_name ''100'' ''00000'' = ?n" by (simp add: noise_name_def)
  have h: "hm_name 100 ''100'' ''1'' = ?h1" "hm_name 100 ''100'' ''2'' = ?h2"
    by (simp_all add: hm_name_def)
  have o: "obs_name 30 ''030'' = ?o" by (simp add: obs_name_def)
  note f100 = format_consts(1) and f30 = format_consts(2) and s0 = format_consts(6)
  \<comment> \<open>a placeholder file is downloaded again\<close>
  let ?W = "placeholder_world :: unit world"
  note T1 = acquisition_policy [where w = ?W and p = "(''c'', ?n)" and t = url_template_sims
      and d = 100 and dir = "''c''" and i = 0 and f = "''100''" and s = "''00000''"]
  note p1 = T1 [THEN conjunct1]
  note e1 = T1 [THEN conjunct2, THEN conjunct2, THEN conjunct1, THEN mp, OF f100,
      THEN conjunct2, THEN conjunct1, THEN mp, OF s0, unfolded n]
  from p1 have a1: "fst (acquire_map_data (''c'', ?n) url_template_sims ?W) = Inr ()"
    and b1: "requests (snd (acquire_map_data (''c'', ?n) url_template_sims ?W)) = [url_template_sims ?n]"
    and c1: "files (snd (acquire_map_data (''c'', ?n) url_template_sims ?W)) (''c'', ?n)
              = Some (replicate 2048 0)"
    by (simp_all add: policy_outcome_def case_prod_beta world_eval)
  have w1: "fst (get_planck_noise_data 100 ''c'' 0 ?W) = Inr (''c'', ?n)"
    "requests (snd (get_planck_noise_data 100 ''c'' 0 ?W)) = [url_template_sims ?n]"
    "files (snd (get_planck_noise_data 100 ''c'' 0 ?W)) (''c'', ?n) = Some (replicate 2048 0)"
    using resolve_via_acquire [OF e1] a1 b1 c1 by simp_all
  \<comment> \<open>a cached file is left alone\<close>
  let ?C = "cached_world :: unit world"
  note T2 = acquisition_policy [where w = ?C and p = "(''c'', ?n)" and t = url_template_sims
      and d = 100 and dir = "''c''" and i = 0 and f = "''100''" and s = "''00000''"]
  note p2 = T2 [THEN conjunct1]
  note e2 = T2 [THEN conjunct2, THEN conjunct2, THEN conjunct1, THEN mp, OF f100,
      THEN conjunct2, THEN conjunct1, THEN mp, OF s0, unfolded n]
  from p2 have a2: "fst (acquire_map_data (''c'', ?n) url_template_sims ?C) = Inr ()"
    and b2: "requests (snd (acquire_map_data (''c'', ?n) url_template_sims ?C)) = []"
    and c2: "files (snd (acquire_map_data (''c'', ?n) url_template_sims ?C)) = files ?C"
    by (simp_all add: policy_outcome_def case_prod_beta world_eval)
  have w2: "fst (get_planck_noise_data 100 ''c'' 0 ?C) = Inr (''c'', ?n)"
    "requests (snd (get_planck_noise_data 100 ''c'' 0 ?C)) = []"
    "files (snd (get_planck_noise_data 100 ''c'' 0 ?C)) = files ?C"
    using resolve_via_acquire [OF e2] a2 b2 c2 by simp_all
  \<comment> \<open>of two half-mission targets only the missing one is fetched\<close>
  let ?H = "half_cached_world :: unit world"
  let ?H' = "snd (get_planck_hm_data 100 ''c'' ?H)"
  have t1: "cached ?H (''c'', hm_name 100 ''100'' ''1'')
          \<or> (remote ?H (url_template_maps (hm_name 100 ''100'' ''1'')) \<noteq> None
             \<and> can_write ?H (''c'', hm_name 100 ''100'' ''1'')
             \<and> write_fault ?H (''c'', hm_name 100 ''100'' ''1'') = None)"
    and t2: "cached ?H (''c'', hm_name 100 ''100'' ''2'')
          \<or> (remote ?H (url_template_maps (hm_name 100 ''100'' ''2'')) \<noteq> None
             \<and> can_write ?H (''c'', hm_name 100 ''100'' ''2'')
             \<and> write_fault ?H (''c'', hm_name 100 ''100'' ''2'') = None)"
    unfolding h by (simp_all add: world_eval)
  note T3 = acquisition_policy [where w = ?H and d = 100 and dir = "''c''" and f = "''100''"
      and pp = "((''c'', ?h1), (''c'', ?h2))" and w' = ?H']
  note F3 = T3 [THEN conjunct2, THEN conjunct2, THEN conjunct1, THEN mp, OF f100]
  note s3 = F3 [THEN conjunct2, THEN conjunct2, THEN conjunct2, THEN conjunct2, THEN conjunct2,
      THEN conjunct2, THEN mp, OF conjI [OF t1 t2], unfolded h]
  from s3 have "get_planck_hm_data 100 ''c'' ?H = (Inr ((''c'', ?h1), (''c'', ?h2)), ?H')"
    by (simp add: prod_eq_iff)
  note r3 = F3 [THEN conjunct2, THEN conjunct2, THEN conjunct2, THEN conjunct2, THEN conjunct2,
      THEN conjunct1, THEN mp, OF this, unfolded h]
  have t3: "\<not> cached ?H (''c'', ?h2)" "cached ?H (''c'', ?h1)"
    "remote ?H (url_template_maps ?h2) = Some (replicate 2048 0)"
    "files ?H (''c'', ?h1) = Some (replicate 1024 0)" "requests ?H = []"
    by (simp_all add: world_eval)
  have w3: "requests ?H' = [url_template_maps ?h2]"
    "files ?H' (''c'', ?h1) = Some (replicate 1024 0)"
    "files ?H' (''c'', ?h2) = Some (replicate 2048 0)"
    using r3 [THEN conjunct2, THEN conjunct1] r3 [THEN conjunct2, THEN conjunct2, THEN conjunct1]
      r3 [THEN conjunct2, THEN conjunct2, THEN conjunct2] t3
    by simp_all
  \<comment> \<open>a request that raises ends the resolver, after one request\<close>
  let ?O = "offline_world :: unit world"
  note T4 = acquisition_policy [where w = ?O and p = "(''c'', ?o)" and t = url_template_maps
      and d = 30 and dir = "''c''" and f = "''030''"]
  note p4 = T4 [THEN conjunct1]
  note e4 = T4 [THEN conjunct2, THEN conjunct2, THEN conjunct1, THEN mp, OF f30,
      THEN conjunct2, THEN conjunct2, THEN conjunct1, unfolded o]
  from p4 have a4: "fst (acquire_map_data (''c'', ?o) url_template_maps ?O)
                      = Inl (RequestException (url_template_maps ?o))"
    and b4: "requests (snd (acquire_map_data (''c'', ?o) url_template_maps ?O)) = [url_template_maps ?o]"
    by (simp_all add: policy_outcome_def case_prod_beta world_eval)
  have w4: "fst (get_planck_obs_data 30 ''c'' ?O) = Inl (RequestException (url_template_maps ?o))"
    "requests (snd (get_planck_obs_data 30 ''c'' ?O)) = [url_template_maps ?o]"
    using resolve_via_acquire [OF e4] a4 b4 by simp_all
  \<comment> \<open>a write that fails leaves a short file\<close>
  let ?F = "full_disk_world :: unit world"
  from acquisition_policy [where w = ?F and p = "(''c'', ''m.fits'')" and t = url_template_sims]
  have "policy_outcome ?F (''c'', ''m.fits'') url_template_sims
          (acquire_map_data (''c'', ''m.fits'') url_template_sims ?F)" by (rule conjunct1)
  then have w5: "fst (acquire_map_data (''c'', ''m.fits'') url_template_sims ?F)
                   = Inl (WriteError (''c'', ''m.fits''))"
    "files (snd (acquire_map_data (''c'', ''m.fits'') url_template_sims ?F)) (''c'', ''m.fits'')
       = Some (replicate 5 0)"
    by (simp_all add: policy_outcome_def case_prod_beta world_eval)
  \<comment> \<open>a number that cannot be formatted ends the resolver at once\<close>
  note w6 = acquisition_policy [where d = "2 ^ 1024" and e = OverflowError and dir = "''c''"
      and w = "fresh_world :: unit world", THEN conjunct2, THEN conjunct1, THEN mp,
      OF format_freq_overflow, THEN conjunct2, THEN conjunct2]
  note w7 = acquisition_policy [where d = 100 and f = "''100''" and i = "2 ^ 1024"
      and e = OverflowError and dir = "''c''" and w = "fresh_world :: unit world",
      THEN conjunct2, THEN conjunct2, THEN conjunct1, THEN mp, OF f100,
      THEN conjunct1, THEN mp, OF format_real_overflow]
  have b: "\<bar>100 :: int\<bar> < 2 ^ 53" "\<bar>0 :: int\<bar> < 2 ^ 53" by simp_all
  note w8 = acquisition_policy [where d = 100, THEN conjunct2, THEN conjunct2, THEN conjunct2,
      THEN conjunct1, THEN mp, OF b(1)]
  note w9 = acquisition_policy [where i = 0, THEN conjunct2, THEN conjunct2, THEN conjunct2,
      THEN conjunct2, THEN mp, OF b(2)]
  from w1 w2 s3 w3 w4 w5 w6 w7 w8 w9 show ?thesis by (intro conjI)
qed

subsection \<open>What the resolvers return\<close>

lemma acquire_result:
  "fst (acquire_map_data p t w) =
     (if cached w p then Inr ()
      else (case remote w (t (snd p)) of
              None \<Rightarrow> Inl (RequestException (t (snd p)))
            | Some body \<Rightarrow>
                if \<not> can_write w p then Inl (OpenForWriteError p)
                else (case write_fault w p of
                        Some k \<Rightarrow> Inl (WriteError p)
                      | None \<Rightarrow> Inr ())))"
  by (simp add: acquire_map_data_def cached_def Let_def split: option.splits)

lemma acquire_requests:
  "requests (snd (acquire_map_data p t w)) = requests w @ (if cached w p then [] else [t (snd p)])"
  by (simp add: acquire_map_data_def cached_def Let_def split: option.splits)

lemma acquire_files:
  "files (snd (acquire_map_data p t w)) =
     (if cached w p then files w
      else (case remote w (t (snd p)) of
              None \<Rightarrow> files w
            | Some body \<Rightarrow>
                if \<not> can_write w p then files w
                else (files w)(p \<mapsto> (case write_fault w p of
                                         Some k \<Rightarrow> take k body
                                       | None \<Rightarrow> body))))"
  by (simp add: acquire_map_data_def cached_def Let_def split: option.splits)

lemma noise_data_result:
  assumes "format_freq d = Inr f" "format_real i = Inr s"
  shows "fst (get_planck_noise_data d dir i w) =
     (if cached w (dir, noise_name f s) then Inr (dir, noise_name f s)
      else (case remote w (url_template_sims (noise_name f s)) of
              None \<Rightarrow> Inl (RequestException (url_template_sims (noise_name f s)))
            | Some body \<Rightarrow>
                if \<not> can_write w (dir, noise_name f s)
                then Inl (OpenForWriteError (dir, noise_name f s))
                else (case write_fault w (dir, noise_name f s) of
                        Some k \<Rightarrow> Inl (WriteError (dir, noise_name f s))
                      | None \<Rightarrow> Inr (dir, noise_name f s))))"
  using resolve_via_acquire(1) [OF noise_data_unfold [OF assms], of dir w]
  by (simp add: acquire_result split: option.splits)

text \<open>
  Claim C2, as amended. \<^verbatim>\<open>get_planck_noise_data\<close> looks the detector up nowhere: for every
  detector and realization below \<open>2^53\<close> in size, in the configured list or not, it
  acquires the file \<^verbatim>\<open>ffp10_noise_<code>_full_map_mc_<index>.fits\<close> and returns its path
  when the acquisition returns normally, and its failures are those of the acquisition.
  The one failure of the naming is the \<^verbatim>\<open>OverflowError\<close> of the number formatting, and
  only for a number of size \<open>2^53\<close> or more.
\<close>

theorem noise_data_any_detector:
  "(\<bar>d\<bar> < 2 ^ 53 \<and> \<bar>i\<bar> < 2 ^ 53 \<longrightarrow>
      get_planck_noise_data d dir i w =
        (case acquire_map_data (dir, noise_name (zfill 3 (str_int d)) (zfill 5 (str_int i)))
                url_template_sims w of
           (Inl x, w') \<Rightarrow> (Inl x, w')
         | (Inr u, w') \<Rightarrow>
             (Inr (dir, noise_name (zfill 3 (str_int d)) (zfill 5 (str_int i))), w'))
      \<and> fst (get_planck_noise_data d dir i w) =
          (if cached w (dir, noise_name (zfill 3 (str_int d)) (zfill 5 (str_int i)))
           then Inr (dir, noise_name (zfill 3 (str_int d)) (zfill 5 (str_int i)))
           else (case remote w (url_template_sims
                         (noise_name (zfill 3 (str_int d)) (zfill 5 (str_int i)))) of
                   None \<Rightarrow>
                     Inl (RequestException (url_template_sims
                            (noise_name (zfill 3 (str_int d)) (zfill 5 (str_int i)))))
                 | Some body \<Rightarrow>
                     if \<not> can_write w (dir, noise_name (zfill 3 (str_int d)) (zfill 5 (str_int i)))
                     then Inl (OpenForWriteError
                                 (dir, noise_name (zfill 3 (str_int d)) (zfill 5 (str_int i))))
                     else (case write_fault w
                                  (dir, noise_name (zfill 3 (str_int d)) (zfill 5 (str_int i))) of
                             Some k \<Rightarrow>
                               Inl (WriteError
                                      (dir, noise_name (zfill 3 (str_int d)) (zfill 5 (str_int i))))
                           | None \<Rightarrow>
                               Inr (dir, noise_name (zfill 3 (str_int d)) (zfill 5 (str_int i)))))))
   \<and> (format_freq d = Inl e \<longrightarrow>
        e = OverflowError \<and> 2 ^ 53 \<le> \<bar>d\<bar> \<and> get_planck_noise_data d dir i w = (Inl e, w))
   \<and> (format_freq d = Inr f \<and> format_real i = Inl e \<longrightarrow>
        e = OverflowError \<and> 2 ^ 53 \<le> \<bar>i\<bar> \<and> get_planck_noise_data d dir i w = (Inl e, w))"
proof (intro conjI impI)
  assume a: "\<bar>d\<bar> < 2 ^ 53 \<and> \<bar>i\<bar> < 2 ^ 53"
  note f = format_freq_exact [OF conjunct1 [OF a]] and s = format_real_exact [OF conjunct2 [OF a]]
  show "get_planck_noise_data d dir i w =
        (case acquire_map_data (dir, noise_name (zfill 3 (str_int d)) (zfill 5 (str_int i)))
                url_template_sims w of
           (Inl x, w') \<Rightarrow> (Inl x, w')
         | (Inr u, w') \<Rightarrow>
             (Inr (dir, noise_name (zfill 3 (str_int d)) (zfill 5 (str_int i))), w'))"
    by (rule noise_data_unfold [OF f s])
  show "fst (get_planck_noise_data d dir i w) =
          (if cached w (dir, noise_name (zfill 3 (str_int d)) (zfill 5 (str_int i)))
           then Inr (dir, noise_name (zfill 3 (str_int d)) (zfill 5 (str_int i)))
           else (case remote w (url_template_sims
                         (noise_name (zfill 3 (str_int d)) (zfill 5 (str_int i)))) of
                   None \<Rightarrow>
                     Inl (RequestException (url_template_sims
                            (noise_name (zfill 3 (str_int d)) (zfill 5 (str_int i)))))
                 | Some body \<Rightarrow>
                     if \<not> can_write w (dir, noise_name (zfill 3 (str_int d)) (zfill 5 (str_int i)))
                     then Inl (OpenForWriteError
                                 (dir, noise_name (zfill 3 (str_int d)) (zfill 5 (str_int i))))
                     else (case write_fault w
                                  (dir, noise_name (zfill 3 (str_int d)) (zfill 5 (str_int i))) of
                             Some k \<Rightarrow>
                               Inl (WriteError
                                      (dir, noise_name (zfill 3 (str_int d)) (zfill 5 (str_int i))))
                           | None \<Rightarrow>
                               Inr (dir, noise_name (zfill 3 (str_int d)) (zfill 5 (str_int i))))))"
    by (rule noise_data_result [OF f s])
next
  assume a: "format_freq d = Inl e"
  show "e = OverflowError" using format_freq_error [OF a] by (rule conjunct1)
  show "2 ^ 53 \<le> \<bar>d\<bar>" using format_freq_error [OF a] by (rule conjunct2)
  show "get_planck_noise_data d dir i w = (Inl e, w)" by (rule resolvers_format_error(1) [OF a])
next
  assume a: "format_freq d = Inr f \<and> format_real i = Inl e"
  show "e = OverflowError" using format_real_error [OF conjunct2 [OF a]] by (rule conjunct1)
  show "2 ^ 53 \<le> \<bar>i\<bar>" using format_real_error [OF conjunct2 [OF a]] by (rule conjunct2)
  show "get_planck_noise_data d dir i w = (Inl e, w)"
    by (rule noise_data_real_error [OF conjunct1 [OF a] conjunct2 [OF a]])
qed

theorem noise_data_any_detector_witness:
  "\<bar>12 :: int\<bar> < 2 ^ 53 \<and> \<bar>7 :: int\<bar> < 2 ^ 53 \<and> 12 \<notin> set supported_detectors
   \<and> fst (get_planck_noise_data 12 ''c'' 7 (cached_world :: unit world))
       = Inr (''c'', ''ffp10_noise_012_full_map_mc_00007.fits'')
   \<and> fst (get_planck_noise_data 12 ''c'' 7 (offline_world :: unit world))
       = Inl (RequestException (url_template_sims ''ffp10_noise_012_full_map_mc_00007.fits''))
   \<and> format_freq (2 ^ 1024) = Inl OverflowError
   \<and> get_planck_noise_data (2 ^ 1024) ''c'' 7 (fresh_world :: unit world)
       = (Inl OverflowError, fresh_world)
   \<and> format_freq 545 = Inr ''545'' \<and> format_real (2 ^ 1024) = Inl OverflowError
   \<and> get_planck_noise_data 545 ''c'' (2 ^ 1024) (fresh_world :: unit world)
       = (Inl OverflowError, fresh_world)"
proof -
  have b: "\<bar>12 :: int\<bar> < 2 ^ 53 \<and> \<bar>7 :: int\<bar> < 2 ^ 53" by simp
  have u: "12 \<notin> set supported_detectors" by (simp add: supported_detectors_def)
  have n: "noise_name (zfill 3 (str_int 12)) (zfill 5 (str_int 7))
             = ''ffp10_noise_012_full_map_mc_00007.fits''"
    by (simp add: noise_name_def fmt_eval)
  note r1 = noise_data_any_detector [where d = 12 and i = 7 and dir = "''c''"
      and w = "cached_world :: unit world", THEN conjunct1, THEN mp, OF b, THEN conjunct2,
      unfolded n]
  have w1: "fst (get_planck_noise_data 12 ''c'' 7 (cached_world :: unit world))
       = Inr (''c'', ''ffp10_noise_012_full_map_mc_00007.fits'')"
    using r1 by (simp add: world_eval)
  note r2 = noise_data_any_detector [where d = 12 and i = 7 and dir = "''c''"
      and w = "offline_world :: unit world", THEN conjunct1, THEN mp, OF b, THEN conjunct2,
      unfolded n]
  have w2: "fst (get_planck_noise_data 12 ''c'' 7 (offline_world :: unit world))
       = Inl (RequestException (url_template_sims ''ffp10_noise_012_full_map_mc_00007.fits''))"
    using r2 by (simp add: world_eval)
  note w3 = noise_data_any_detector [where d = "2 ^ 1024" and i = 7 and dir = "''c''"
      and e = OverflowError and w = "fresh_world :: unit world",
      THEN conjunct2, THEN conjunct1, THEN mp, OF format_freq_overflow,
      THEN conjunct2, THEN conjunct2]
  note w4 = noise_data_any_detector [where d = 545 and i = "2 ^ 1024" and dir = "''c''"
      and e = OverflowError and f = "''545''" and w = "fresh_world :: unit world",
      THEN conjunct2, THEN conjunct2, THEN mp,
      OF conjI [OF format_consts(5) format_real_overflow], THEN conjunct2, THEN conjunct2]
  from conjunct1 [OF b] conjunct2 [OF b] u w1 w2 format_freq_overflow w3 format_consts(5)
    format_real_overflow w4
  show ?thesis by (intro conjI)
qed

theorem unsupported_detector_counterexample:
  "999 \<notin> set supported_detectors
   \<and> fst (get_planck_noise_data 999 ''c'' 0 (fresh_world :: unit world))
       = Inr (''c'', ''ffp10_noise_999_full_map_mc_00000.fits'')
   \<and> requests (snd (get_planck_noise_data 999 ''c'' 0 (fresh_world :: unit world)))
       = [url_template_sims ''ffp10_noise_999_full_map_mc_00000.fits'']
   \<and> files (snd (get_planck_noise_data 999 ''c'' 0 (fresh_world :: unit world)))
        (''c'', ''ffp10_noise_999_full_map_mc_00000.fits'') = Some (replicate 2048 0)"
proof -
  have u: "999 \<notin> set supported_detectors" by (simp add: supported_detectors_def)
  have n: "noise_name ''999'' ''00000'' = ''ffp10_noise_999_full_map_mc_00000.fits''"
    by (simp add: noise_name_def)
  note e = noise_data_unfold [OF format_consts(4) format_consts(6), of "''c''"
      "fresh_world :: unit world", unfolded n]
  have a: "fst (get_planck_noise_data 999 ''c'' 0 (fresh_world :: unit world))
       = Inr (''c'', ''ffp10_noise_999_full_map_mc_00000.fits'')"
    using resolve_via_acquire(1) [OF e] by (simp add: acquire_result world_eval)
  have b: "requests (snd (get_planck_noise_data 999 ''c'' 0 (fresh_world :: unit world)))
       = [url_template_sims ''ffp10_noise_999_full_map_mc_00000.fits'']"
    using resolve_via_acquire(2) [OF e] by (simp add: acquire_requests world_eval)
  have c: "files (snd (get_planck_noise_data 999 ''c'' 0 (fresh_world :: unit world)))
        (''c'', ''ffp10_noise_999_full_map_mc_00000.fits'') = Some (replicate 2048 0)"
    using resolve_via_acquire(2) [OF e] by (simp add: acquire_files world_eval)
  from u a b c show ?thesis by (intro conjI)
qed

lemma acquire_cached:
  assumes "cached w p"
  shows "acquire_map_data p t w = (Inr (), w\<lparr>stdout := stdout w @ [File_exists p]\<rparr>)"
proof -
  from assms obtain c where "files w p = Some c" "\<not> length c < 1024"
    by (auto simp: cached_def split: option.splits)
  then show ?thesis by (simp add: acquire_map_data_def Let_def)
qed









subsection \<open>The loop of the builder\<close>

lemma body_after_fetch:
  "get_ps_data_body lib d avg lmax i w =
     (case get_planck_noise_data d PLANCK_NOISE_DIR i w of
        (Inl e, w1) \<Rightarrow> (Inl e, w1)
      | (Inr fn, w1) \<Rightarrow>
          (case analyse_map lib d avg lmax fn w1 of
             Inl e \<Rightarrow> (Inl e, w1)
           | Inr r \<Rightarrow> (Inr r, w1)))"
proof -
  obtain r w1 where g: "get_planck_noise_data d PLANCK_NOISE_DIR i w = (r, w1)"
    by (cases "get_planck_noise_data d PLANCK_NOISE_DIR i w")
  show ?thesis
  proof (cases r)
    case (Inl e)
    then show ?thesis by (simp add: get_ps_data_body_def g)
  next
    case (Inr fn)
    then show ?thesis
      by (simp add: get_ps_data_body_def g analyse_map_def split: sum.splits option.splits)
  qed
qed

lemma acquire_archives: "archives (snd (acquire_map_data p t w)) = archives w"
  by (simp add: acquire_map_data_def Let_def split: option.splits)

lemma noise_data_archives: "archives (snd (get_planck_noise_data d dir i w)) = archives w"
proof (cases "format_freq d")
  case (Inl e)
  then show ?thesis by (simp add: resolvers_format_error)
next
  case f: (Inr f)
  show ?thesis
  proof (cases "format_real i")
    case (Inl e)
    then show ?thesis by (simp add: noise_data_real_error [OF f])
  next
    case (Inr s)
    show ?thesis
      using resolve_via_acquire(2) [OF noise_data_unfold [OF f Inr], of dir w]
      by (simp add: acquire_archives)
  qed
qed

lemma body_world:
  "snd (get_ps_data_body lib d avg lmax i w) = snd (get_planck_noise_data d PLANCK_NOISE_DIR i w)"
  by (simp add: body_after_fetch split: prod.splits sum.splits)

lemma body_archives: "archives (snd (get_ps_data_body lib d avg lmax i w)) = archives w"
  by (simp add: body_world noise_data_archives)

lemma loop_archives:
  "archives (snd (get_ps_data_loop lib d avg lmax xs acc w)) = archives w"
proof (induction xs arbitrary: acc w)
  case Nil
  show ?case by simp
next
  case (Cons i xs)
  obtain cls means u where acc: "acc = (cls, means, u)" by (cases acc)
  obtain r w1 where b: "get_ps_data_body lib d avg lmax i w = (r, w1)"
    by (cases "get_ps_data_body lib d avg lmax i w")
  have a: "archives w1 = archives w" using body_archives [of lib d avg lmax i w] b by simp
  show ?case
  proof (cases r)
    case (Inl e)
    then show ?thesis by (simp add: acc b a)
  next
    case (Inr t)
    obtain u' m cl where t: "t = (u', m, cl)" by (cases t)
    show ?thesis using Cons.IH [of "(cls @ [cl], means @ [m], Some u')" w1]
      by (simp add: acc b Inr t a)
  qed
qed

lemma loop_append:
  "get_ps_data_loop lib d avg lmax (xs @ ys) acc w =
     (case get_ps_data_loop lib d avg lmax xs acc w of
        (Inl e, w1) \<Rightarrow> (Inl e, w1)
      | (Inr acc1, w1) \<Rightarrow> get_ps_data_loop lib d avg lmax ys acc1 w1)"
proof (induction xs arbitrary: acc w)
  case Nil
  show ?case by simp
next
  case (Cons i xs)
  obtain cls means u where acc: "acc = (cls, means, u)" by (cases acc)
  obtain r w1 where b: "get_ps_data_body lib d avg lmax i w = (r, w1)"
    by (cases "get_ps_data_body lib d avg lmax i w")
  show ?case
  proof (cases r)
    case (Inl e)
    then show ?thesis by (simp add: acc b)
  next
    case (Inr t)
    obtain u' m cl where t: "t = (u', m, cl)" by (cases t)
    show ?thesis using Cons.IH [of "(cls @ [cl], means @ [m], Some u')" w1]
      by (simp add: acc b Inr t)
  qed
qed

lemma loop_step_fails:
  assumes "get_ps_data_body lib d avg lmax i w = (Inl e, w1)"
  shows "get_ps_data_loop lib d avg lmax (i # rest) acc w = (Inl e, w1)"
proof -
  obtain cls means u where acc: "acc = (cls, means, u)" by (cases acc)
  show ?thesis by (simp add: acc assms)
qed

lemma realizations_split:
  assumes "i < n"
  shows "map int [0..<n] = map int [0..<i] @ int i # map int [Suc i..<n]"
proof -
  have "[0..<n] = [0..<i] @ [i..<n]" using upt_add_eq_append [of 0 i "n - i"] assms by simp
  also have "[i..<n] = i # [Suc i..<n]" using assms by (rule upt_conv_Cons)
  finally show ?thesis by simp
qed

lemma run_aborts:
  assumes avg: "load_avg lib d w = Inr avg" and i: "i < N_PLANCK_SIMS"
    and pre: "get_ps_data_loop lib d avg (get_lmax_for_nside (nside d)) (map int [0..<i])
                ([], [], None) w = (Inr acc, w1)"
    and body: "get_ps_data_body lib d avg (get_lmax_for_nside (nside d)) (int i) w1 = (Inl e, w2)"
  shows "get_ps_data lib d w = (Inl e, w2)" and "archives w2 = archives w"
proof -
  let ?l = "get_lmax_for_nside (nside d)"
  have "get_ps_data_loop lib d avg ?l (map int [0..<N_PLANCK_SIMS]) ([], [], None) w = (Inl e, w2)"
    by (simp only: realizations_split [OF i] loop_append pre loop_step_fails [OF body]
          prod.case sum.case)
  then show "get_ps_data lib d w = (Inl e, w2)"
    by (simp add: get_ps_data_def avg)
  have "archives w1 = archives w"
    using loop_archives [of lib d avg ?l "map int [0..<i]" "([], [], None)" w] pre by simp
  moreover have "archives w2 = archives w1"
    using body_archives [of lib d avg ?l "int i" w1] body by simp
  ultimately show "archives w2 = archives w" by simp
qed

lemma run_failure_keeps_archives:
  assumes "fst (get_ps_data lib d w) = Inl e"
  shows "archives (snd (get_ps_data lib d w)) = archives w"
proof (cases "load_avg lib d w")
  case (Inl x)
  then show ?thesis by (simp add: get_ps_data_def)
next
  case (Inr avg)
  let ?l = "get_lmax_for_nside (nside d)"
  obtain r w1 where l: "get_ps_data_loop lib d avg ?l (map int [0..<N_PLANCK_SIMS]) ([], [], None) w
                          = (r, w1)"
    by (cases "get_ps_data_loop lib d avg ?l (map int [0..<N_PLANCK_SIMS]) ([], [], None) w")
  have a: "archives w1 = archives w"
    using loop_archives [of lib d avg ?l "map int [0..<N_PLANCK_SIMS]" "([], [], None)" w] l
    by simp
  show ?thesis
  proof (cases r)
    case (Inl x)
    then show ?thesis by (simp add: get_ps_data_def Inr l a)
  next
    case acc: (Inr acc)
    have g: "get_ps_data lib d w = fit_and_save lib d acc w1"
      by (simp add: get_ps_data_def Inr l acc)
    from assms show ?thesis unfolding g
      by (auto simp: fit_and_save_def a Let_def split: prod.splits option.splits)
  qed
qed

lemma get_field_unit_lib:
  "get_field_unit (lib\<lparr>read_map := r, anafast := a\<rparr>) fn hdu k w = get_field_unit lib fn hdu k w"
  by (simp add: get_field_unit_def cong: option.case_cong)

lemma body_unknown_unit:
  assumes fetch: "get_planck_noise_data d PLANCK_NOISE_DIR i w1 = (Inr fn, w2)"
    and unit: "get_field_unit lib fn 1 0 w2 = Inr u"
    and bad: "u \<notin> set [''K_CMB'', ''MJy/sr'']"
  shows "get_ps_data_body lib d avg lmax i w1 = (Inl (UnknownUnit u fn), w2)"
  using bad by (simp add: body_after_fetch fetch analyse_map_def unit)

lemma get_field_unit_no_key:
  assumes "files w fn = Some content" "fits_open lib content = Some hdul"
    "py_index hdul hdu = Inr hdr" "map_of hdr (''TUNIT'' @ str_int (k + 1)) = None"
  shows "get_field_unit lib fn hdu k w = Inr []"
  using assms by (simp add: get_field_unit_def)

text \<open>
  Claim C3. When the realizations before \<open>i\<close> have gone through and the map fetched for
  realization \<open>i\<close> declares a unit that is neither \<^verbatim>\<open>K_CMB\<close> nor \<^verbatim>\<open>MJy/sr\<close>, the run of
  \<^verbatim>\<open>get_ps_data\<close> ends with the error naming that unit and that file, and the archives are
  those of the start. The error comes before the map is read and before its power
  spectrum is taken: it is the result whatever \<^verbatim>\<open>read_map\<close> and \<^verbatim>\<open>anafast\<close> would do, raise
  included. A run that ends with an error, whichever, leaves the archives as they were.
\<close>

theorem unknown_unit_aborts:
  assumes "load_avg lib d w = Inr avg"
    and "i < N_PLANCK_SIMS"
    and "get_ps_data_loop lib d avg (get_lmax_for_nside (nside d)) (map int [0..<i])
           ([], [], None) w = (Inr acc, w1)"
    and "get_planck_noise_data d PLANCK_NOISE_DIR (int i) w1 = (Inr fn, w2)"
    and "get_field_unit lib fn 1 0 w2 = Inr u"
    and "u \<notin> set [''K_CMB'', ''MJy/sr'']"
  shows "get_ps_data lib d w = (Inl (UnknownUnit u fn), w2)
       \<and> archives w2 = archives w
       \<and> get_ps_data_body (lib\<lparr>read_map := r, anafast := a\<rparr>) d avg' lmax (int i) w1
           = (Inl (UnknownUnit u fn), w2)
       \<and> (fst (get_ps_data lib d w') = Inl e
            \<longrightarrow> archives (snd (get_ps_data lib d w')) = archives w')"
proof (intro conjI impI)
  have b: "get_ps_data_body lib d avg (get_lmax_for_nside (nside d)) (int i) w1
             = (Inl (UnknownUnit u fn), w2)"
    by (rule body_unknown_unit [OF assms(4) assms(5) assms(6)])
  show "get_ps_data lib d w = (Inl (UnknownUnit u fn), w2)"
    by (rule run_aborts(1) [OF assms(1) assms(2) assms(3) b])
  show "archives w2 = archives w"
    by (rule run_aborts(2) [OF assms(1) assms(2) assms(3) b])
  have "get_field_unit (lib\<lparr>read_map := r, anafast := a\<rparr>) fn 1 0 w2 = Inr u"
    by (simp only: get_field_unit_lib assms(5))
  then show "get_ps_data_body (lib\<lparr>read_map := r, anafast := a\<rparr>) d avg' lmax (int i) w1
           = (Inl (UnknownUnit u fn), w2)"
    by (rule body_unknown_unit [OF assms(4) _ assms(6)])
next
  assume "fst (get_ps_data lib d w') = Inl e"
  then show "archives (snd (get_ps_data lib d w')) = archives w'"
    by (rule run_failure_keeps_archives)
qed

lemma sim_files: "files (sim_world code) p = Some (replicate 1024 (code (snd p)))"
  by (simp add: sim_world_def world_of_def)

lemma sim_cached: "cached (sim_world code) p"
  by (simp add: cached_def sim_files)

lemma files_stdout: "files (w\<lparr>stdout := m\<rparr>) = files w"
  by simp

lemma noise_data_cached:
  assumes "format_freq d = Inr f" "format_real i = Inr s" "cached w (dir, noise_name f s)"
  shows "get_planck_noise_data d dir i w =
           (Inr (dir, noise_name f s), w\<lparr>stdout := stdout w @ [File_exists (dir, noise_name f s)]\<rparr>)"
  by (simp add: noise_data_unfold [OF assms(1,2)] acquire_cached [OF assms(3)])

lemma test_unit:
  assumes "files w p = Some (replicate 1024 c)"
  shows "get_field_unit test_lib p 1 0 w =
           Inr (if c = 0 then ''K_CMB'' else if c = 1 then ''MJy/sr''
                else if c = 2 then ''uK'' else [])"
  by (simp add: get_field_unit_def assms test_lib_def replicate_numeral_eq py_index_def
        str_int_consts)

lemma test_read:
  assumes "files w p = Some (replicate 1024 c)"
  shows "hp_read_map test_lib p w = Inr (replicate 1024 (int c))"
  by (simp add: hp_read_map_def assms test_lib_def)

lemma test_analyse:
  assumes "files w p = Some (replicate 1024 c)" "c \<le> 1" "\<not> subtract_average d"
  shows "analyse_map test_lib d avg lmax p w =
           Inr (if c = 0 then ''K_CMB'' else ''MJy/sr'', int c, [lmax, 1024 * int c])"
proof -
  have c: "c = 0 \<or> c = 1" using assms(2) by auto
  have m: "np_mean test_lib (replicate 1024 (int c)) = int c"
    "anafast test_lib (replicate 1024 (int c)) lmax = Some [lmax, 1024 * int c]"
    by (simp_all add: test_lib_def sum_list_replicate)
  from c show ?thesis
    by (auto simp: analyse_map_def test_unit [OF assms(1)] test_read [OF assms(1)] assms(3) m)
qed

lemma format_real_1: "format_real 1 = Inr ''00001''"
  by (simp add: format_real_def format_0f_exact fmt_eval)

lemma noise_names:
  "noise_name ''100'' ''00000'' = ''ffp10_noise_100_full_map_mc_00000.fits''"
  "noise_name ''100'' ''00001'' = ''ffp10_noise_100_full_map_mc_00001.fits''"
  "noise_name ''100'' ''00099'' = ''ffp10_noise_100_full_map_mc_00099.fits''"
  "noise_name ''545'' ''00000'' = ''ffp10_noise_545_full_map_mc_00000.fits''"
  by (simp_all add: noise_name_def)

lemma test_load_avg_100: "load_avg test_lib 100 w = Inr None"
  by (simp add: load_avg_def subtract_average_def)

theorem unknown_unit_aborts_witness:
  "1 < N_PLANCK_SIMS
   \<and> get_field_unit test_lib (PLANCK_NOISE_DIR, ''ffp10_noise_100_full_map_mc_00001.fits'') 1 0
        (bad_unit_world :: int noise_model world) = Inr ''uK''
   \<and> ''uK'' \<notin> set [''K_CMB'', ''MJy/sr'']
   \<and> get_ps_data test_lib 100 (bad_unit_world :: int noise_model world)
       = (Inl (UnknownUnit ''uK'' (PLANCK_NOISE_DIR, ''ffp10_noise_100_full_map_mc_00001.fits'')),
          bad_unit_world
            \<lparr>stdout := [File_exists (PLANCK_NOISE_DIR, ''ffp10_noise_100_full_map_mc_00000.fits''),
                        File_exists (PLANCK_NOISE_DIR, ''ffp10_noise_100_full_map_mc_00001.fits'')]\<rparr>)
   \<and> archives (snd (get_ps_data test_lib 100 (bad_unit_world :: int noise_model world)))
       = archives (bad_unit_world :: int noise_model world)
   \<and> fst (get_ps_data_body (test_lib\<lparr>read_map := (\<lambda>_. None), anafast := (\<lambda>_ _. None)\<rparr>) 100 None
             6143 1
             ((bad_unit_world :: int noise_model world)
                \<lparr>stdout := [File_exists
                              (PLANCK_NOISE_DIR, ''ffp10_noise_100_full_map_mc_00000.fits'')]\<rparr>))
       = Inl (UnknownUnit ''uK'' (PLANCK_NOISE_DIR, ''ffp10_noise_100_full_map_mc_00001.fits''))"
proof -
  let ?W = "bad_unit_world :: int noise_model world"
  let ?p0 = "(PLANCK_NOISE_DIR, ''ffp10_noise_100_full_map_mc_00000.fits'')"
  let ?p1 = "(PLANCK_NOISE_DIR, ''ffp10_noise_100_full_map_mc_00001.fits'')"
  let ?w1 = "?W\<lparr>stdout := [File_exists ?p0]\<rparr>"
  let ?w2 = "?W\<lparr>stdout := [File_exists ?p0, File_exists ?p1]\<rparr>"
  have s: "stdout ?W = []" by (simp add: bad_unit_world_def sim_world_def world_of_def)
  have c: "cached ?W p" for p by (simp add: bad_unit_world_def sim_cached)
  have f0: "files ?W ?p0 = Some (replicate 1024 0)" and f1: "files ?W ?p1 = Some (replicate 1024 2)"
    by (simp_all add: bad_unit_world_def sim_files)
  have n: "1 < N_PLANCK_SIMS" by (simp add: N_PLANCK_SIMS_def)
  have l: "get_lmax_for_nside (nside 100) = 6143" by (simp add: get_lmax_for_nside_def nside_def)
  have g0: "get_planck_noise_data 100 PLANCK_NOISE_DIR 0 ?W = (Inr ?p0, ?w1)"
    using noise_data_cached [OF format_consts(1) format_consts(6) c, of PLANCK_NOISE_DIR]
    by (simp add: noise_names s)
  have a0: "analyse_map test_lib 100 None 6143 ?p0 ?w1 = Inr (''K_CMB'', 0, [6143, 0])"
    using test_analyse [of ?w1 ?p0 0 100 None 6143] f0 by (simp add: subtract_average_def)
  have pre: "get_ps_data_loop test_lib 100 None (get_lmax_for_nside (nside 100)) (map int [0..<1])
               ([], [], None) ?W = (Inr ([[6143, 0]], [0], Some ''K_CMB''), ?w1)"
    by (simp add: l body_after_fetch g0 a0)
  have c1: "cached ?w1 p" for p using c [of p] by (simp add: cached_def)
  have g1: "get_planck_noise_data 100 PLANCK_NOISE_DIR (int 1) ?w1 = (Inr ?p1, ?w2)"
    using noise_data_cached [OF format_consts(1) format_real_1 c1, of PLANCK_NOISE_DIR]
    by (simp add: noise_names)
  have u: "get_field_unit test_lib ?p1 1 0 ?w2 = Inr ''uK''"
    using test_unit [of ?w2 ?p1 2] f1 by simp
  have u': "get_field_unit test_lib ?p1 1 0 ?W = Inr ''uK''"
    using test_unit [of ?W ?p1 2] f1 by simp
  have b: "''uK'' \<notin> set [''K_CMB'', ''MJy/sr'']" by simp
  note T = unknown_unit_aborts [OF test_load_avg_100 n pre g1 u b,
      where r = "\<lambda>_. None" and a = "\<lambda>_ _. None" and avg' = None and lmax = 6143
        and w' = ?W and e = "UnknownUnit ''uK'' ?p1"]
  note t1 = T [THEN conjunct1]
  have t2: "archives (snd (get_ps_data test_lib 100 ?W)) = archives ?W"
    using T [THEN conjunct2, THEN conjunct2, THEN conjunct2] t1 by simp
  have t3: "fst (get_ps_data_body (test_lib\<lparr>read_map := (\<lambda>_. None), anafast := (\<lambda>_ _. None)\<rparr>)
                   100 None 6143 1 ?w1) = Inl (UnknownUnit ''uK'' ?p1)"
    using T [THEN conjunct2, THEN conjunct2, THEN conjunct1] by simp
  from n u' b t1 t2 t3 show ?thesis by (intro conjI)
qed

text \<open>
  Claim C9. A header without the keyword of the requested field makes \<^verbatim>\<open>get_field_unit\<close>
  return the empty string, no error. The empty string is not a recognized unit, so when
  the realizations before \<open>i\<close> have gone through and the header of the map fetched for
  realization \<open>i\<close> has no \<^verbatim>\<open>TUNIT1\<close>, the loop body and the whole run end with the error of
  an unknown unit, here the empty one, and the archives are those of the start.
\<close>

theorem missing_unit_aborts:
  assumes "load_avg lib d w = Inr avg"
    and "i < N_PLANCK_SIMS"
    and "get_ps_data_loop lib d avg (get_lmax_for_nside (nside d)) (map int [0..<i])
           ([], [], None) w = (Inr acc, w1)"
    and "get_planck_noise_data d PLANCK_NOISE_DIR (int i) w1 = (Inr fn, w2)"
    and "files w2 fn = Some content"
    and "fits_open lib content = Some hdul"
    and "py_index hdul 1 = Inr hdr"
    and "map_of hdr ''TUNIT1'' = None"
  shows "get_field_unit lib fn 1 0 w2 = Inr []
       \<and> [] \<notin> set [''K_CMB'', ''MJy/sr'']
       \<and> get_ps_data_body lib d avg (get_lmax_for_nside (nside d)) (int i) w1
           = (Inl (UnknownUnit [] fn), w2)
       \<and> get_ps_data lib d w = (Inl (UnknownUnit [] fn), w2)
       \<and> archives w2 = archives w
       \<and> (files w' fn' = Some content' \<and> fits_open lib content' = Some hdul'
            \<and> py_index hdul' hdu = Inr hdr' \<and> map_of hdr' (''TUNIT'' @ str_int (k + 1)) = None
            \<longrightarrow> get_field_unit lib fn' hdu k w' = Inr [])"
proof (intro conjI impI)
  have key: "map_of hdr (''TUNIT'' @ str_int (0 + 1)) = None"
    using assms(8) by (simp add: str_int_consts)
  show u: "get_field_unit lib fn 1 0 w2 = Inr []"
    by (rule get_field_unit_no_key [OF assms(5) assms(6) assms(7) key])
  show n: "[] \<notin> set [''K_CMB'', ''MJy/sr'']" by simp
  show b: "get_ps_data_body lib d avg (get_lmax_for_nside (nside d)) (int i) w1
           = (Inl (UnknownUnit [] fn), w2)"
    by (rule body_unknown_unit [OF assms(4) u n])
  show "get_ps_data lib d w = (Inl (UnknownUnit [] fn), w2)"
    by (rule run_aborts(1) [OF assms(1) assms(2) assms(3) b])
  show "archives w2 = archives w"
    by (rule run_aborts(2) [OF assms(1) assms(2) assms(3) b])
next
  assume a: "files w' fn' = Some content' \<and> fits_open lib content' = Some hdul'
            \<and> py_index hdul' hdu = Inr hdr' \<and> map_of hdr' (''TUNIT'' @ str_int (k + 1)) = None"
  show "get_field_unit lib fn' hdu k w' = Inr []"
    by (rule get_field_unit_no_key
          [OF a [THEN conjunct1] a [THEN conjunct2, THEN conjunct1]
              a [THEN conjunct2, THEN conjunct2, THEN conjunct1]
              a [THEN conjunct2, THEN conjunct2, THEN conjunct2]])
qed

theorem missing_unit_aborts_witness:
  "0 < N_PLANCK_SIMS
   \<and> files (no_unit_world :: int noise_model world)
        (PLANCK_NOISE_DIR, ''ffp10_noise_100_full_map_mc_00000.fits'') = Some (replicate 1024 3)
   \<and> fits_open test_lib (replicate 1024 3) = Some [[(''SIMPLE'', ''T'')], [(''TTYPE1'', ''I_STOKES'')]]
   \<and> get_field_unit test_lib (PLANCK_NOISE_DIR, ''ffp10_noise_100_full_map_mc_00000.fits'') 1 0
        (no_unit_world :: int noise_model world) = Inr []
   \<and> get_ps_data test_lib 100 (no_unit_world :: int noise_model world)
       = (Inl (UnknownUnit [] (PLANCK_NOISE_DIR, ''ffp10_noise_100_full_map_mc_00000.fits'')),
          no_unit_world
            \<lparr>stdout := [File_exists (PLANCK_NOISE_DIR, ''ffp10_noise_100_full_map_mc_00000.fits'')]\<rparr>)
   \<and> archives (snd (get_ps_data test_lib 100 (no_unit_world :: int noise_model world)))
       = archives (no_unit_world :: int noise_model world)"
proof -
  let ?W = "no_unit_world :: int noise_model world"
  let ?p0 = "(PLANCK_NOISE_DIR, ''ffp10_noise_100_full_map_mc_00000.fits'')"
  let ?w1 = "?W\<lparr>stdout := [File_exists ?p0]\<rparr>"
  let ?hdul = "[[(''SIMPLE'', ''T'')], [(''TTYPE1'', ''I_STOKES'')]]"
  have s: "stdout ?W = []" by (simp add: no_unit_world_def sim_world_def world_of_def)
  have c: "cached ?W p" for p by (simp add: no_unit_world_def sim_cached)
  have f0: "files ?W ?p0 = Some (replicate 1024 3)"
    by (simp add: no_unit_world_def sim_files)
  then have f1: "files ?w1 ?p0 = Some (replicate 1024 3)" by simp
  have n: "0 < N_PLANCK_SIMS" by (simp add: N_PLANCK_SIMS_def)
  have pre: "get_ps_data_loop test_lib 100 None (get_lmax_for_nside (nside 100)) (map int [0..<0])
               ([], [], None) ?W = (Inr ([], [], None), ?W)"
    by simp
  have g0: "get_planck_noise_data 100 PLANCK_NOISE_DIR (int 0) ?W = (Inr ?p0, ?w1)"
    using noise_data_cached [OF format_consts(1) format_consts(6) c, of PLANCK_NOISE_DIR]
    by (simp add: noise_names s)
  have o: "fits_open test_lib (replicate 1024 3) = Some ?hdul"
    by (simp add: test_lib_def replicate_numeral_eq)
  have h: "py_index ?hdul 1 = Inr [(''TTYPE1'', ''I_STOKES'')]" by (simp add: py_index_def)
  have k: "map_of [(''TTYPE1'', ''I_STOKES'')] ''TUNIT1'' = None" by simp
  have k': "map_of [(''TTYPE1'', ''I_STOKES'')] (''TUNIT'' @ str_int (0 + 1)) = None"
    by (simp add: str_int_consts)
  note T = missing_unit_aborts [OF test_load_avg_100 n pre g0 f1 o h k,
      where w' = ?W and fn' = ?p0 and content' = "replicate 1024 3" and hdul' = ?hdul
        and hdu = 1 and hdr' = "[(''TTYPE1'', ''I_STOKES'')]" and k = 0]
  note t1 = T [THEN conjunct2, THEN conjunct2, THEN conjunct2, THEN conjunct1]
  have t2: "archives (snd (get_ps_data test_lib 100 ?W)) = archives ?W"
    using T [THEN conjunct2, THEN conjunct2, THEN conjunct2, THEN conjunct2, THEN conjunct1] t1
    by simp
  note t3 = T [THEN conjunct2, THEN conjunct2, THEN conjunct2, THEN conjunct2, THEN conjunct2,
      THEN mp, OF conjI [OF f0 conjI [OF o conjI [OF h k']]]]
  from n f0 o t3 t1 t2 show ?thesis by (intro conjI)
qed







end
